theory Spec2Isabelle
  imports Complex_Main "HOL-Library.AList" "HOL-Library.Sublist"
begin

section \<open>JavaScript strings and objects\<close>

text \<open>
  This theory embeds the command interpretation and orchestration engine of
  \<open>script.js\<close> (class \<open>SmartHomeVoiceControl\<close>): \<open>normalizeRoom\<close>, \<open>parseCommand\<close>,
  \<open>processCommand\<close>, \<open>executeCommand\<close>, \<open>executeScene\<close>, \<open>setTimer\<close>, \<open>handleSettings\<close> and
  the \<open>setTimeout\<close> callbacks they register.

  Numbers: durations, delays and the clock are natural numbers of milliseconds, device
  values are integers, and a confidence is a real number; the rounding of JavaScript's
  floating point numbers is not modelled. The draws of \<open>Math.random()\<close> are parameters.
  Objects: \<open>this.devices\<close>, \<open>this.scenes\<close> and the alias table of \<open>normalizeRoom\<close> are
  association lists of their own properties in insertion order, read with \<open>js_get\<close>,
  which also finds the members inherited from \<open>Object.prototype\<close>.

  A JavaScript string is modelled as a \<^typ>\<open>string\<close> whose characters are the code units
  0..255 (the Latin-1 range). Everything below is the behaviour of the built-in string
  methods on that range.
\<close>

definition is_space :: "char \<Rightarrow> bool" where
  \<comment> \<open>WhiteSpace and LineTerminator: what \<open>trim\<close> strips and what \<open>\s\<close> matches.\<close>
  "is_space c = ((of_char c :: int) \<in> {9, 10, 11, 12, 13, 32, 160})"

definition is_digit :: "char \<Rightarrow> bool" where
  "is_digit c = (48 \<le> (of_char c :: int) \<and> (of_char c :: int) \<le> 57)"

definition lower_char :: "char \<Rightarrow> char" where
  "lower_char c =
     (let n = of_char c :: int
      in if (65 \<le> n \<and> n \<le> 90) \<or> (192 \<le> n \<and> n \<le> 222 \<and> n \<noteq> 215)
         then char_of (n + 32) else c)"

definition toLowerCase :: "string \<Rightarrow> string" where
  "toLowerCase s = map lower_char s"

definition trim :: "string \<Rightarrow> string" where
  "trim s = rev (dropWhile is_space (rev (dropWhile is_space s)))"

fun startsWith :: "string \<Rightarrow> string \<Rightarrow> bool" where
  \<comment> \<open>\<open>s.startsWith(p)\<close>\<close>
  "startsWith s [] = True"
| "startsWith [] (p # ps) = False"
| "startsWith (x # xs) (p # ps) = (x = p \<and> startsWith xs ps)"

fun str_includes :: "string \<Rightarrow> string \<Rightarrow> bool" where
  \<comment> \<open>\<open>s.includes(sub)\<close>\<close>
  "str_includes [] sub = (sub = [])"
| "str_includes (x # xs) sub = (startsWith (x # xs) sub \<or> str_includes xs sub)"

fun replace_first :: "string \<Rightarrow> char \<Rightarrow> char \<Rightarrow> string" where
  \<comment> \<open>\<open>s.replace(a, b)\<close> for one-character strings: only the first occurrence.\<close>
  "replace_first [] a b = []"
| "replace_first (x # xs) a b = (if x = a then b # xs else x # replace_first xs a b)"

definition parseInt :: "string \<Rightarrow> nat" where
  \<comment> \<open>\<open>parseInt\<close> on a capture of \<open>\d+\<close>: a non-empty run of decimal digits.\<close>
  "parseInt s = foldl (\<lambda>n c. 10 * n + nat (of_char c - 48)) 0 (takeWhile is_digit s)"

text \<open>
  Reading \<open>obj[key]\<close> on an object literal walks the prototype chain: a key that is not an
  own property is still found when \<open>Object.prototype\<close> has a member of that name.
\<close>

definition object_prototype_names :: "string list" where
  "object_prototype_names =
     [''constructor'', ''__proto__'', ''hasOwnProperty'', ''isPrototypeOf'',
      ''propertyIsEnumerable'', ''toLocaleString'', ''toString'', ''valueOf'',
      ''__defineGetter__'', ''__defineSetter__'', ''__lookupGetter__'', ''__lookupSetter__'']"

datatype 'a lookup = Own 'a | Inherited string | Undefined

definition js_get :: "(string \<times> 'a) list \<Rightarrow> string \<Rightarrow> 'a lookup" where
  "js_get obj key =
     (case map_of obj key of
        Some v \<Rightarrow> Own v
      | None \<Rightarrow> if key \<in> set object_prototype_names then Inherited key else Undefined)"

text \<open>
  What is found under an inherited name is a built-in object: \<open>Object.prototype\<close> itself
  under \<open>__proto__\<close>, the function \<open>Object\<close> under \<open>constructor\<close>, a method of
  \<open>Object.prototype\<close> under the other names. These are truthy, answer \<open>hasOwnProperty\<close>
  with their own members, and refuse (by a TypeError, the class body being strict code)
  an assignment to a member that is not writable.
\<close>

definition builtin_own_names :: "string \<Rightarrow> string list" where
  \<comment> \<open>the own property names of the built-in object found under an inherited name\<close>
  "builtin_own_names n =
     (if n = ''__proto__'' then object_prototype_names
      else if n = ''constructor''
        then [''length'', ''name'', ''prototype'', ''assign'', ''create'', ''defineProperties'',
              ''defineProperty'', ''entries'', ''freeze'', ''fromEntries'',
              ''getOwnPropertyDescriptor'', ''getOwnPropertyDescriptors'',
              ''getOwnPropertyNames'', ''getOwnPropertySymbols'', ''getPrototypeOf'',
              ''groupBy'', ''hasOwn'', ''is'', ''isExtensible'', ''isFrozen'', ''isSealed'',
              ''keys'', ''preventExtensions'', ''seal'', ''setPrototypeOf'', ''values'']
      else [''length'', ''name''])"

definition builtin_read_only :: "string \<Rightarrow> string \<Rightarrow> bool" where
  \<comment> \<open>members of that built-in object that are not writable: \<open>length\<close> and \<open>name\<close> of a
      function, and \<open>prototype\<close> of \<open>Object\<close>\<close>
  "builtin_read_only n member =
     (n \<noteq> ''__proto__''
      \<and> (member = ''length'' \<or> member = ''name'' \<or> (n = ''constructor'' \<and> member = ''prototype'')))"

section \<open>Room normalizer\<close>

text \<open>
  The result of \<open>normalizeRoom\<close> is a room id string, or, when the lookup in the alias
  table lands on an inherited member, the built-in object of that name.
\<close>

datatype roomval = RoomId string | Builtin string

definition roomMap :: "(string \<times> string) list" where
  "roomMap =
     [(''living room'', ''living-room''),
      (''livingroom'', ''living-room''),
      (''living'', ''living-room''),
      (''lounge'', ''living-room''),
      (''front room'', ''living-room''),
      (''main room'', ''living-room''),
      (''living roo'', ''living-room''),
      (''living ro'', ''living-room''),
      (''livin'', ''living-room''),
      (''liv'', ''living-room''),
      (''bedroom'', ''bedroom''),
      (''bed room'', ''bedroom''),
      (''master bedroom'', ''bedroom''),
      (''master'', ''bedroom''),
      (''sleeping room'', ''bedroom''),
      (''bed'', ''bedroom''),
      (''kitchen'', ''kitchen''),
      (''cooking area'', ''kitchen''),
      (''dining room'', ''kitchen''),
      (''kitch'', ''kitchen'')]"

definition partial_match :: "string \<Rightarrow> (string \<times> string) option" where
  \<comment> \<open>the \<open>for ... of Object.entries(roomMap)\<close> loop with its \<open>break\<close>\<close>
  "partial_match normalized =
     find (\<lambda>(key, value). startsWith key normalized \<or> startsWith normalized key) roomMap"

definition normalizeRoom :: "string \<Rightarrow> roomval" where
  "normalizeRoom roomName =
     (if roomName = [] then RoomId ''living-room''
      else
        let normalized = toLowerCase (trim roomName)
        in case js_get roomMap normalized of
             Own v \<Rightarrow> RoomId v
           | Inherited n \<Rightarrow> Builtin n
           | Undefined \<Rightarrow>
               (case partial_match normalized of
                  Some (key, value) \<Rightarrow> RoomId value
                | None \<Rightarrow> RoomId ''living-room''))"

definition room_ids :: "string set" where
  "room_ids = {''living-room'', ''bedroom'', ''kitchen''}"

definition truncations :: "string \<Rightarrow> string list" where
  \<comment> \<open>the non-empty proper prefixes of a string\<close>
  "truncations s = map (\<lambda>n. take n s) [1 ..< length s]"

section \<open>Regular expressions\<close>

text \<open>
  The patterns of \<open>parseCommand\<close> use literals, the classes \<open>.\<close>, \<open>\s\<close> and \<open>\d\<close>,
  sequence, ordered alternation, the greedy quantifiers \<open>?\<close>, \<open>*\<close> and \<open>+\<close>, and numbered
  capture groups. \<open>rmatch r s caps\<close> lists, in the order in which a backtracking matcher
  tries them, the ways \<open>r\<close> can match at the start of \<open>s\<close>: each is the unconsumed rest
  with the captures. The head of the list is the match JavaScript reports.
\<close>

datatype regex =
    Eps
  | Lit char
  | LitI char  \<comment> \<open>a literal under the \<open>i\<close> flag\<close>
  | Dot
  | Space
  | Digit
  | NoUnit  \<comment> \<open>a literal code unit above 255: matches no modelled character\<close>
  | Seq regex regex
  | Alt regex regex
  | Opt regex
  | Star regex
  | Grp nat regex

type_synonym captures = "nat \<rightharpoonup> string"

definition one_char :: "(char \<Rightarrow> bool) \<Rightarrow> string \<Rightarrow> captures \<Rightarrow> (string \<times> captures) list" where
  "one_char P s caps = (case s of [] \<Rightarrow> [] | x # xs \<Rightarrow> if P x then [(xs, caps)] else [])"

fun rmatch :: "regex \<Rightarrow> string \<Rightarrow> captures \<Rightarrow> (string \<times> captures) list" where
  "rmatch Eps s caps = [(s, caps)]"
| "rmatch (Lit c) s caps = one_char (\<lambda>x. x = c) s caps"
| "rmatch (LitI c) s caps = one_char (\<lambda>x. lower_char x = lower_char c) s caps"
| "rmatch Dot s caps = one_char (\<lambda>x. x \<noteq> CHR 0x0A \<and> x \<noteq> CHR 0x0D) s caps"
| "rmatch Space s caps = one_char is_space s caps"
| "rmatch Digit s caps = one_char is_digit s caps"
| "rmatch NoUnit s caps = []"
| "rmatch (Seq a b) s caps =
     concat (map (\<lambda>(rest, caps'). rmatch b rest caps') (rmatch a s caps))"
| "rmatch (Alt a b) s caps = rmatch a s caps @ rmatch b s caps"
| "rmatch (Opt a) s caps = rmatch a s caps @ [(s, caps)]"
| "rmatch (Star a) s caps =
     concat (map (\<lambda>(rest, caps').
                    if length rest < length s then rmatch (Star a) rest caps' else [])
                 (rmatch a s caps))
     @ [(s, caps)]"
| "rmatch (Grp n a) s caps =
     map (\<lambda>(rest, caps'). (rest, caps'(n \<mapsto> take (length s - length rest) s)))
         (rmatch a s caps)"

fun search :: "regex \<Rightarrow> string \<Rightarrow> captures option" where
  \<comment> \<open>\<open>s.match(r)\<close> without the \<open>g\<close> flag: the first start position with a match\<close>
  "search r [] = (case rmatch r [] Map.empty of [] \<Rightarrow> None | (rest, caps) # _ \<Rightarrow> Some caps)"
| "search r (x # xs) =
     (case rmatch r (x # xs) Map.empty of
        [] \<Rightarrow> search r xs
      | (rest, caps) # _ \<Rightarrow> Some caps)"

definition lit :: "string \<Rightarrow> regex" where
  "lit s = foldr (\<lambda>c r. Seq (Lit c) r) s Eps"

definition litI :: "string \<Rightarrow> regex" where
  "litI s = foldr (\<lambda>c r. Seq (LitI c) r) s Eps"

definition plus_re :: "regex \<Rightarrow> regex" where
  "plus_re r = Seq r (Star r)"

fun alts :: "regex list \<Rightarrow> regex" where
  "alts [] = NoUnit"
| "alts [r] = r"
| "alts (r # rs) = Alt r (alts rs)"

fun seqs :: "regex list \<Rightarrow> regex" where
  "seqs [] = Eps"
| "seqs (r # rs) = Seq r (seqs rs)"

definition grp :: "captures \<Rightarrow> nat \<Rightarrow> string" where
  \<comment> \<open>\<open>matches[n]\<close> of a group that took part in the match; \<open>[]\<close> stands for \<open>undefined\<close>
      where the value is only tested for truth\<close>
  "grp m n = (case m n of None \<Rightarrow> [] | Some s \<Rightarrow> s)"

section \<open>Intent parser\<close>

datatype jsval = Num int | Str string

text \<open>
  The objects \<open>parseCommand\<close> returns. \<open>Timer device room action duration unit\<close> and
  \<open>Device device room action value\<close> list the fields of the source objects in their order.
\<close>

datatype command =
    Help
  | Scene string
  | Timer string roomval string nat string
  | Settings string
  | Device string roomval string jsval

definition ws :: regex where
  "ws = plus_re Space"

definition the_opt :: regex where
  \<comment> \<open>\<open>(?:the\s+)?\<close>\<close>
  "the_opt = Opt (seqs [lit ''the'', ws])"

definition lights_re :: regex where
  \<comment> \<open>\<open>lights?\<close>\<close>
  "lights_re = seqs [lit ''light'', Opt (Lit CHR ''s'')]"

definition rooms_re :: regex where
  \<comment> \<open>\<open>living\s+room|bedroom|kitchen|living|master\<close>\<close>
  "rooms_re = alts [seqs [lit ''living'', ws, lit ''room''], lit ''bedroom'', lit ''kitchen'',
                    lit ''living'', lit ''master'']"

definition on_off :: regex where
  "on_off = alts [lit ''on'', lit ''off'']"

definition in_room_opt :: "regex \<Rightarrow> regex" where
  \<comment> \<open>\<open>(?:\s+in\s+(?:the\s+)?(R))?\<close> with \<open>R\<close> as group 2\<close>
  "in_room_opt r = Opt (seqs [ws, lit ''in'', ws, the_opt, Grp 2 r])"

definition degrees_opt :: regex where
  \<comment> \<open>\<open>(?:\s+(?:degrees?|XYf?))?\<close>, where \<open>XY\<close> are the code units U+00AC U+221E of the source\<close>
  "degrees_opt =
     Opt (seqs [ws, alts [seqs [lit ''degree'', Opt (Lit CHR ''s'')],
                          seqs [Lit (CHR 0xAC), NoUnit, Opt (Lit CHR ''f'')]]])"

definition timer_re :: regex where
  \<comment> \<open>\<open>/(turn off|stop) (.+) in (\d+) (minutes?|mins?|hours?|hrs?)/i\<close>\<close>
  "timer_re =
     seqs [Grp 1 (alts [litI ''turn off'', litI ''stop'']), LitI CHR '' '',
           Grp 2 (plus_re Dot), litI '' in '', Grp 3 (plus_re Digit), LitI CHR '' '',
           Grp 4 (alts [seqs [litI ''minute'', Opt (LitI CHR ''s'')],
                        seqs [litI ''min'', Opt (LitI CHR ''s'')],
                        seqs [litI ''hour'', Opt (LitI CHR ''s'')],
                        seqs [litI ''hr'', Opt (LitI CHR ''s'')]])]"

definition opt_room :: "captures \<Rightarrow> nat \<Rightarrow> roomval" where
  \<comment> \<open>\<open>matches[n] ? this.normalizeRoom(matches[n]) : 'living-room'\<close>\<close>
  "opt_room m n =
     (case m n of
        None \<Rightarrow> RoomId ''living-room''
      | Some s \<Rightarrow> if s = [] then RoomId ''living-room'' else normalizeRoom s)"

definition on_off_value :: "string \<Rightarrow> jsval" where
  \<comment> \<open>\<open>matches[k] === 'on' ? 100 : 0\<close>\<close>
  "on_off_value a = Num (if a = ''on'' then 100 else 0)"

definition music_value :: "string \<Rightarrow> jsval" where
  \<comment> \<open>\<open>action === 'play' ? 'playing' : action === 'stop' ? 'stopped' : 'paused'\<close>\<close>
  "music_value a =
     Str (if a = ''play'' then ''playing'' else if a = ''stop'' then ''stopped'' else ''paused'')"

definition patterns :: "(regex \<times> (captures \<Rightarrow> command)) list" where
  "patterns =
     [(seqs [lit ''turn'', ws, Grp 1 on_off, ws, the_opt, Grp 2 rooms_re, ws, lights_re],
       \<lambda>m. Device ''lights'' (normalizeRoom (grp m 2)) (grp m 1) (on_off_value (grp m 1))),
      (seqs [Grp 1 rooms_re, ws, lights_re, ws, Grp 2 on_off],
       \<lambda>m. Device ''lights'' (normalizeRoom (grp m 1)) (grp m 2) (on_off_value (grp m 2))),
      (seqs [Opt (seqs [lit ''turn'', ws]), Grp 1 on_off, ws, the_opt, lights_re,
             in_room_opt rooms_re],
       \<lambda>m. Device ''lights'' (opt_room m 2) (grp m 1) (on_off_value (grp m 1))),
      (seqs [lights_re, ws, Grp 1 on_off, in_room_opt (plus_re Dot)],
       \<lambda>m. Device ''lights'' (opt_room m 2) (grp m 1) (on_off_value (grp m 1))),
      (seqs [lit ''dim'', ws, the_opt, Opt (seqs [Grp 1 (plus_re Dot), ws]), lights_re, ws,
             lit ''to'', ws, Grp 2 (plus_re Digit),
             Opt (alts [seqs [Star Space, lit ''percent''], Lit CHR ''%''])],
       \<lambda>m. Device ''lights'' (opt_room m 1) ''dim''
              (Num (min 100 (max 0 (int (parseInt (grp m 2))))))),
      (seqs [lit ''set'', ws, the_opt, lit ''temperature'', ws, lit ''to'', ws,
             Grp 1 (plus_re Digit), degrees_opt, in_room_opt (plus_re Dot)],
       \<lambda>m. Device ''thermostat'' (opt_room m 2) ''set'' (Num (int (parseInt (grp m 1))))),
      (seqs [lit ''set'', ws, the_opt, Grp 1 (plus_re Dot), ws, lit ''temperature'', ws,
             lit ''to'', ws, Grp 2 (plus_re Digit), degrees_opt],
       \<lambda>m. Device ''thermostat'' (normalizeRoom (grp m 1)) ''set'' (Num (int (parseInt (grp m 2))))),
      (seqs [Grp 1 (alts [lit ''play'', lit ''stop'', lit ''pause'']), ws, the_opt,
             lit ''music'', in_room_opt (plus_re Dot)],
       \<lambda>m. Device ''music'' (opt_room m 2) (grp m 1) (music_value (grp m 1))),
      (seqs [lit ''music'', ws,
             Grp 1 (alts [lit ''on'', lit ''off'', lit ''play'', lit ''stop'', lit ''pause'']),
             in_room_opt (plus_re Dot)],
       \<lambda>m. let action = (if grp m 1 = ''on'' then ''play''
                          else if grp m 1 = ''off'' then ''stop'' else grp m 1)
            in Device ''music'' (opt_room m 2) action (music_value action)),
      (seqs [Grp 1 (alts [lit ''arm'', lit ''disarm'']), ws, the_opt, lit ''security'',
             Opt (seqs [ws, lit ''system''])],
       \<lambda>m. Device ''security'' (RoomId ''kitchen'') (grp m 1)
              (Str (if grp m 1 = ''arm'' then ''armed'' else ''disarmed'')))]"

fun first_pattern :: "(regex \<times> (captures \<Rightarrow> command)) list \<Rightarrow> string \<Rightarrow> command option" where
  \<comment> \<open>the loop \<open>for (const pattern of patterns)\<close>\<close>
  "first_pattern [] command = None"
| "first_pattern ((pattern, action) # rest) command =
     (case search pattern command of
        Some matches \<Rightarrow> Some (action matches)
      | None \<Rightarrow> first_pattern rest command)"

definition parseCommand :: "string \<Rightarrow> command option" where
  "parseCommand command =
     (if str_includes command ''help'' \<or> str_includes command ''what can you do''
         \<or> str_includes command ''commands'' then Some Help
      else if str_includes command ''movie mode'' \<or> str_includes command ''cinema mode''
        then Some (Scene ''movie'')
      else if str_includes command ''goodnight'' \<or> str_includes command ''good night''
        then Some (Scene ''goodnight'')
      else if str_includes command ''wake up'' \<or> str_includes command ''morning mode''
        then Some (Scene ''morning'')
      else if str_includes command ''party mode'' \<or> str_includes command ''party time''
        then Some (Scene ''party'')
      else case search timer_re command of
        Some timerMatch \<Rightarrow>
          Some (Timer ''lights'' (normalizeRoom (grp timerMatch 2)) ''turn off''
                  (parseInt (grp timerMatch 3)) (toLowerCase (grp timerMatch 4)))
      | None \<Rightarrow>
          if str_includes command ''turn off voice'' \<or> str_includes command ''disable voice''
            then Some (Settings ''disable_voice'')
          else if str_includes command ''turn on voice'' \<or> str_includes command ''enable voice''
            then Some (Settings ''enable_voice'')
          else if str_includes command ''use whisper'' \<or> str_includes command ''switch to whisper''
                  \<or> str_includes command ''whisper backend''
            then Some (Settings ''use_whisper'')
          else if str_includes command ''use web speech''
                  \<or> str_includes command ''switch to web speech''
                  \<or> str_includes command ''browser speech''
            then Some (Settings ''use_webspeech'')
          else first_pattern patterns command)"

section \<open>Device state store\<close>

type_synonym room_devices = "(string \<times> jsval) list"
type_synonym store = "(string \<times> room_devices) list"

definition defaultStates :: store where
  "defaultStates =
     [(''living-room'', [(''lights'', Num 0), (''thermostat'', Num 72), (''music'', Str ''stopped'')]),
      (''bedroom'', [(''lights'', Num 0), (''thermostat'', Num 70), (''music'', Str ''stopped'')]),
      (''kitchen'', [(''lights'', Num 0), (''thermostat'', Num 68), (''security'', Str ''disarmed'')])]"

definition loadDeviceStates :: "store option \<Rightarrow> store" where
  \<comment> \<open>the argument is the parsed content of \<open>localStorage['smartHomeDevices']\<close>, if any\<close>
  "loadDeviceStates saved = (case saved of None \<Rightarrow> defaultStates | Some st \<Rightarrow> st)"

definition get_device :: "store \<Rightarrow> string \<Rightarrow> string \<Rightarrow> jsval option" where
  \<comment> \<open>reading \<open>this.devices[room][device]\<close> for a room and a device of the store\<close>
  "get_device st room device =
     (case map_of st room of None \<Rightarrow> None | Some devs \<Rightarrow> map_of devs device)"

definition has_own :: "room_devices lookup \<Rightarrow> string \<Rightarrow> bool" where
  \<comment> \<open>\<open>this.devices[room].hasOwnProperty(device)\<close>, given what \<open>this.devices[room]\<close> is\<close>
  "has_own target device =
     (case target of
        Own devs \<Rightarrow> map_of devs device \<noteq> None
      | Inherited n \<Rightarrow> device \<in> set (builtin_own_names n)
      | Undefined \<Rightarrow> False)"

definition assign :: "string \<Rightarrow> string \<Rightarrow> jsval \<Rightarrow> store \<Rightarrow> store option" where
  \<comment> \<open>\<open>this.devices[room][device] = value\<close>; \<open>None\<close> is the TypeError raised when
      \<open>this.devices[room]\<close> is undefined or the member is not writable. A device the room
      lacks is created. When \<open>this.devices[room]\<close> is a built-in object the assignment
      lands on that object and the store stays as it is; what the program does once a
      built-in object has been overwritten is not modelled.\<close>
  "assign room device v st =
     (case js_get st room of
        Undefined \<Rightarrow> None
      | Own devs \<Rightarrow> Some (AList.update room (AList.update device v devs) st)
      | Inherited n \<Rightarrow> if builtin_read_only n device then None else Some st)"

definition domain_ok :: "string \<Rightarrow> jsval \<Rightarrow> bool" where
  \<comment> \<open>the value domain of each device kind\<close>
  "domain_ok device v =
     (if device = ''lights'' then (case v of Num n \<Rightarrow> 0 \<le> n \<and> n \<le> 100 | Str s \<Rightarrow> False)
      else if device = ''music''
        then (case v of Num n \<Rightarrow> False | Str s \<Rightarrow> s \<in> {''playing'', ''paused'', ''stopped''})
      else if device = ''security''
        then (case v of Num n \<Rightarrow> False | Str s \<Rightarrow> s \<in> {''armed'', ''disarmed''})
      else True)"

definition store_ok :: "store \<Rightarrow> bool" where
  "store_ok st = (\<forall>room device v. get_device st room device = Some v \<longrightarrow> domain_ok device v)"

section \<open>Application state and feedback\<close>

text \<open>
  What the application does to its collaborators is recorded in a trace: an entry of the
  debug panel (its text without the time stamp and without the tick mark or confidence
  percentage some entries carry), a sentence handed to the speech synthesiser, and a
  snapshot written to local storage by \<open>saveDeviceStates\<close>. Rendering of the device cards
  (\<open>updateDeviceUI\<close>) and the console output are left out.
\<close>

datatype panel_type = Normal | Success | Error

datatype effect = Debug string panel_type | Spoken string | Saved store

record timer =
  t_room :: roomval
  t_device :: string
  t_action :: string
  t_endTime :: nat
  t_duration :: nat
  t_unit :: string

record app =
  devices :: store
  storage :: "store option"
  activeTimers :: "(string \<times> timer) list"
  voiceResponseEnabled :: bool
  synthesis :: bool
  useWhisperBackend :: bool
  whisperAvailable :: bool
  commandHistory :: "(string \<times> command option \<times> bool) list"
  trace :: "effect list"

definition confidenceThreshold :: real where
  "confidenceThreshold = 7 / 10"

definition maxHistoryLength :: nat where
  "maxHistoryLength = 10"

definition init_app :: "store option \<Rightarrow> bool \<Rightarrow> bool \<Rightarrow> app" where
  \<comment> \<open>the constructor: saved device states, whether the browser has speech synthesis,
      and the saved backend choice; \<open>whisperAvailable\<close> starts as \<open>false\<close> and is set by
      the health check of the backend, which is not part of this model\<close>
  "init_app saved synth whisper =
     \<lparr>devices = loadDeviceStates saved, storage = saved, activeTimers = [],
      voiceResponseEnabled = True, synthesis = synth, useWhisperBackend = whisper,
      whisperAvailable = False, commandHistory = [], trace = []\<rparr>"

definition speak :: "string \<Rightarrow> app \<Rightarrow> app" where
  "speak text a =
     (if \<not> synthesis a \<or> \<not> voiceResponseEnabled a \<or> text = [] then a
      else a\<lparr>trace := trace a @ [Spoken text]\<rparr>)"

definition addToDebugPanel :: "string \<Rightarrow> panel_type \<Rightarrow> app \<Rightarrow> app" where
  "addToDebugPanel text type a = a\<lparr>trace := trace a @ [Debug text type]\<rparr>"

definition saveDeviceStates :: "app \<Rightarrow> app" where
  "saveDeviceStates a = a\<lparr>storage := Some (devices a), trace := trace a @ [Saved (devices a)]\<rparr>"

definition addCommandToHistory :: "string \<Rightarrow> command option \<Rightarrow> bool \<Rightarrow> app \<Rightarrow> app" where
  "addCommandToHistory command parsed success a =
     (let h = (command, parsed, success) # commandHistory a
      in a\<lparr>commandHistory := (if length h > maxHistoryLength then take maxHistoryLength h else h)\<rparr>)"

fun show_nat :: "nat \<Rightarrow> string" where
  "show_nat n =
     (if n < 10 then [char_of (48 + n)] else show_nat (n div 10) @ [char_of (48 + n mod 10)])"

declare show_nat.simps [simp del]

definition show_value :: "jsval \<Rightarrow> string" where
  \<comment> \<open>a value inside a template literal\<close>
  "show_value v =
     (case v of Num n \<Rightarrow> (if n < 0 then CHR ''-'' # show_nat (nat (- n)) else show_nat (nat n))
              | Str s \<Rightarrow> s)"

definition builtin_string :: "string \<Rightarrow> string" where
  \<comment> \<open>the string form of the built-in object found under an inherited name\<close>
  "builtin_string n =
     (if n = ''__proto__'' then ''[object Object]''
      else if n = ''constructor'' then ''function Object() { [native code] }''
      else ''function '' @ n @ ''() { [native code] }'')"

definition room_key :: "roomval \<Rightarrow> string" where
  \<comment> \<open>a room used as a property key or inside a template literal\<close>
  "room_key room = (case room of RoomId r \<Rightarrow> r | Builtin n \<Rightarrow> builtin_string n)"

definition room_replace :: "roomval \<Rightarrow> string option" where
  \<comment> \<open>\<open>room.replace('-', ' ')\<close>; \<open>None\<close> is the TypeError raised when \<open>room\<close> is not a string\<close>
  "room_replace room =
     (case room of RoomId r \<Rightarrow> Some (replace_first r CHR ''-'' CHR '' '') | Builtin n \<Rightarrow> None)"

definition responseVariations :: "(string \<times> string list) list" where
  "responseVariations =
     [(''success'', [''Done!'', ''Sure thing!'', ''You got it!'', ''Consider it done!'',
                     ''All set!'', ''Perfect!'', ''Great!'']),
      (''unrecognized'',
         [''Sorry, I didn't understand that command.'',
          ''I'm not sure what you meant. Try saying 'help' for available commands.'',
          ''Could you rephrase that? Say 'help' to see what I can do.'',
          ''I didn't catch that. Try 'help' for a list of commands.''])]"

definition getRandomResponse :: "string \<Rightarrow> nat \<Rightarrow> string \<Rightarrow> string" where
  \<comment> \<open>\<open>pick\<close> stands for the draw of \<open>Math.random()\<close>: the index is \<open>pick mod length\<close>.
      The source calls it with the types \<open>success\<close> and \<open>unrecognized\<close> only.\<close>
  "getRandomResponse type pick message =
     (case map_of responseVariations type of
        None \<Rightarrow> message
      | Some responses \<Rightarrow>
          let randomResponse = responses ! (pick mod length responses)
          in if type = ''success'' then randomResponse @ '' '' @ message else randomResponse)"

definition formatSuccessMessage :: "string \<Rightarrow> roomval \<Rightarrow> string \<Rightarrow> jsval \<Rightarrow> string option" where
  \<comment> \<open>\<open>None\<close>: the TypeError of \<open>room.replace\<close>. In the thermostat text the source has the
      code units U+00AC U+221E before \<open>F\<close>; the second one is written \<open>CHR 0x1E\<close> here.\<close>
  "formatSuccessMessage device room action v =
     (case room_replace room of
        None \<Rightarrow> None
      | Some roomName \<Rightarrow>
          Some (if device = ''lights''
                  then (if action = ''dim''
                          then roomName @ '' lights dimmed to '' @ show_value v @ ''%''
                        else roomName @ '' lights turned '' @ action)
                else if device = ''thermostat''
                  then roomName @ '' temperature set to '' @ show_value v @ [CHR 0xAC, CHR 0x1E, CHR ''F'']
                else if device = ''music'' then ''Music '' @ show_value v @ '' in '' @ roomName
                else if device = ''security'' then ''Security system '' @ show_value v
                else device @ '' in '' @ roomName @ '' updated''))"

section \<open>Deferred actions\<close>

text \<open>
  Each \<open>setTimeout\<close> callback of the source is a task. A function that runs synchronously
  returns the new state, the timeouts it registered (delay in milliseconds and task), and
  whether it ended by an exception.
\<close>

datatype task =
    DeviceTask string roomval string jsval nat
  | SceneStep string string jsval
  | SceneDone string nat
  | TimerFire string roomval string string
  | HelpTask

record outcome =
  app_of :: app
  timeouts :: "(nat \<times> task) list"
  thrown :: bool

definition returns :: "app \<Rightarrow> (nat \<times> task) list \<Rightarrow> outcome" where
  "returns a ts = \<lparr>app_of = a, timeouts = ts, thrown = False\<rparr>"

definition throws :: "app \<Rightarrow> (nat \<times> task) list \<Rightarrow> outcome" where
  "throws a ts = \<lparr>app_of = a, timeouts = ts, thrown = True\<rparr>"

definition join_lines :: "string list \<Rightarrow> string" where
  "join_lines ls =
     (case ls of [] \<Rightarrow> [] | l # rest \<Rightarrow> l @ concat (map (\<lambda>x. CHR 0x0A # x) rest))"

definition helpText :: string where
  "helpText =
     (let dq = CHR 0x22 in
      join_lines
       [''Here are the commands I understand:'',
        [],
        ''Device Control:'',
        ''- Turn on/off lights: '' @ [dq] @ ''turn on living room lights'' @ [dq],
        ''- Dim lights: '' @ [dq] @ ''dim bedroom lights to 50 percent'' @ [dq],
        ''- Set temperature: '' @ [dq] @ ''set temperature to 72 degrees'' @ [dq],
        ''- Control music: '' @ [dq] @ ''play music in bedroom'' @ [dq] @ '', '' @ [dq] @ ''stop music'' @ [dq],
        ''- Security: '' @ [dq] @ ''arm security'' @ [dq] @ '', '' @ [dq] @ ''disarm security'' @ [dq],
        [],
        ''Scenes:'',
        ''- '' @ [dq] @ ''Movie mode'' @ [dq] @ '' - dims lights and starts music'',
        ''- '' @ [dq] @ ''Goodnight'' @ [dq] @ '' - turns off all lights and arms security'',
        ''- '' @ [dq] @ ''Wake up'' @ [dq] @ '' or '' @ [dq] @ ''morning mode'' @ [dq] @ '' - turns on lights'',
        ''- '' @ [dq] @ ''Party mode'' @ [dq] @ '' - activates fun lighting'',
        [],
        ''Timers:'',
        ''- '' @ [dq] @ ''Turn off bedroom lights in 10 minutes'' @ [dq],
        [],
        ''Settings:'',
        ''- '' @ [dq] @ ''Turn off voice responses'' @ [dq],
        ''- '' @ [dq] @ ''Turn on voice responses'' @ [dq],
        ''- '' @ [dq] @ ''Use Whisper backend'' @ [dq] @ '' (offline, more accurate)'',
        ''- '' @ [dq] @ ''Use Web Speech'' @ [dq] @ '' (browser-based)'',
        [],
        ''Keyboard shortcuts:'',
        ''- Ctrl/Cmd + M: Toggle microphone'',
        ''- Ctrl/Cmd + H: Show help'',
        ''- Spacebar: Quick mic toggle''])"

definition showHelp :: "app \<Rightarrow> outcome" where
  "showHelp a =
     returns
       (speak (''I can control your smart home devices. Try saying things like turn on living room lights, ''
               @ ''set temperature to 72, play music, movie mode, or goodnight. ''
               @ ''You can also set timers by saying turn off lights in 10 minutes.'')
          (addToDebugPanel ''Help system activated'' Success a))
       [(1000, HelpTask)]"

definition loadScenes :: "(string \<times> (string \<times> string \<times> jsval) list) list" where
  \<comment> \<open>each step is (room, device, value)\<close>
  "loadScenes =
     [(''movie'', [(''living-room'', ''lights'', Num 20),
                   (''living-room'', ''music'', Str ''playing'')]),
      (''goodnight'', [(''living-room'', ''lights'', Num 0),
                       (''bedroom'', ''lights'', Num 0),
                       (''kitchen'', ''lights'', Num 0),
                       (''kitchen'', ''security'', Str ''armed'')]),
      (''morning'', [(''bedroom'', ''lights'', Num 80),
                     (''kitchen'', ''lights'', Num 100),
                     (''kitchen'', ''security'', Str ''disarmed'')]),
      (''party'', [(''living-room'', ''lights'', Num 100),
                   (''bedroom'', ''lights'', Num 75),
                   (''kitchen'', ''lights'', Num 100),
                   (''living-room'', ''music'', Str ''playing'')])]"

definition executeScene :: "nat \<Rightarrow> string \<Rightarrow> app \<Rightarrow> outcome" where
  \<comment> \<open>under an inherited name \<open>this.scenes[sceneName]\<close> is a built-in object, which has no
      \<open>forEach\<close>: the call ends by a TypeError\<close>
  "executeScene pick sceneName a =
     (case js_get loadScenes sceneName of
        Undefined \<Rightarrow> returns (speak (''Sorry, I don't know the '' @ sceneName @ '' scene.'') a) []
      | Inherited n \<Rightarrow>
          throws (speak (''Activating '' @ sceneName @ '' mode.'')
                    (addToDebugPanel (''Executing '' @ sceneName @ '' scene...'') Success a)) []
      | Own scenes \<Rightarrow>
          let a1 = addToDebugPanel (''Executing '' @ sceneName @ '' scene...'') Success a;
              a2 = speak (''Activating '' @ sceneName @ '' mode.'') a1;
              steps = map (\<lambda>(index, (room, device, v)). (index * 500, SceneStep room device v))
                          (enumerate 0 scenes);
              a3 = saveDeviceStates a2
          in returns a3 (steps @ [(length scenes * 500, SceneDone sceneName pick)]))"

definition timer_id :: "roomval \<Rightarrow> string \<Rightarrow> nat \<Rightarrow> string" where
  \<comment> \<open>\<open>`${room}-${device}-${Date.now()}`\<close>\<close>
  "timer_id room device now = room_key room @ ''-'' @ device @ ''-'' @ show_nat now"

definition setTimer :: "nat \<Rightarrow> string \<Rightarrow> roomval \<Rightarrow> string \<Rightarrow> nat \<Rightarrow> string \<Rightarrow> app \<Rightarrow> outcome" where
  \<comment> \<open>\<open>now\<close> is \<open>Date.now()\<close>\<close>
  "setTimer now device room action duration unit a =
     (let milliseconds = (if str_includes unit ''hour'' then duration * 3600000
                          else duration * 60000);
          timerId = timer_id room device now;
          endTime = now + milliseconds;
          unit' = (if str_includes unit ''hour'' then ''hour'' else ''minute'');
          a1 = a\<lparr>activeTimers :=
                   AList.update timerId
                     \<lparr>t_room = room, t_device = device, t_action = action, t_endTime = endTime,
                      t_duration = duration, t_unit = unit'\<rparr>
                     (activeTimers a)\<rparr>;
          timeText = show_nat duration @ '' '' @ unit' @ (if duration > 1 then ''s'' else [])
      in case room_replace room of
           None \<Rightarrow> throws a1 []
         | Some roomName \<Rightarrow>
             returns
               (speak (''Timer set. I'll '' @ action @ '' the '' @ roomName @ '' '' @ device
                       @ '' in '' @ timeText @ ''.'')
                  (addToDebugPanel (''Timer set: '' @ action @ '' '' @ roomName @ '' '' @ device
                                    @ '' in '' @ timeText) Success a1))
               [(milliseconds, TimerFire timerId room device action)])"

definition handleSettings :: "string \<Rightarrow> app \<Rightarrow> outcome" where
  "handleSettings action a =
     (if action = ''disable_voice''
        then returns (speak ''Voice responses are now disabled.''
                        (addToDebugPanel ''Voice responses disabled'' Success
                           (a\<lparr>voiceResponseEnabled := False\<rparr>))) []
      else if action = ''enable_voice''
        then returns (speak ''Voice responses are now enabled.''
                        (addToDebugPanel ''Voice responses enabled'' Success
                           (a\<lparr>voiceResponseEnabled := True\<rparr>))) []
      else if action = ''use_whisper''
        then (if whisperAvailable a
                then returns (speak ''Now using Whisper for more accurate speech recognition.''
                                (addToDebugPanel ''Switched to Whisper backend'' Success
                                   (a\<lparr>useWhisperBackend := True\<rparr>))) []
              else returns (speak ''Whisper backend is not available. Please start the Python server.''
                              (addToDebugPanel ''Whisper backend not available'' Error a)) [])
      else if action = ''use_webspeech''
        then returns (speak ''Now using browser speech recognition.''
                        (addToDebugPanel ''Switched to Web Speech API'' Success
                           (a\<lparr>useWhisperBackend := False\<rparr>))) []
      else returns a [])"

definition executeCommand :: "nat \<Rightarrow> nat \<Rightarrow> nat \<Rightarrow> command \<Rightarrow> app \<Rightarrow> outcome" where
  \<comment> \<open>\<open>now\<close> is \<open>Date.now()\<close>, \<open>jitter\<close> the delay \<open>Math.random() * 500 + 200\<close> as drawn,
      \<open>pick\<close> the draw for the confirmation sentence\<close>
  "executeCommand now jitter pick command a =
     (case command of
        Help \<Rightarrow> showHelp a
      | Scene sceneName \<Rightarrow> executeScene pick sceneName a
      | Timer device room action duration unit \<Rightarrow> setTimer now device room action duration unit a
      | Settings action \<Rightarrow> handleSettings action a
      | Device device room action v \<Rightarrow>
          (case js_get (devices a) (room_key room) of
             Undefined \<Rightarrow>
               (let a1 = addToDebugPanel (''Room '' @ room_key room @ '' not found'') Error a
                in case room_replace room of
                     None \<Rightarrow> throws a1 []
                   | Some roomName \<Rightarrow>
                       returns (speak (''Sorry, I don't have a '' @ roomName @ '' configured.'') a1) [])
           | target \<Rightarrow>
               if \<not> has_own target device
                 then (let a1 = addToDebugPanel (''Device '' @ device @ '' not found in ''
                                                 @ room_key room) Error a
                       in case room_replace room of
                            None \<Rightarrow> throws a1 []
                          | Some roomName \<Rightarrow>
                              returns (speak (''Sorry, I couldn't find the '' @ device @ '' in the ''
                                              @ roomName @ ''.'') a1) [])
               else returns a [(jitter, DeviceTask device room action v pick)]))"

fun fire :: "task \<Rightarrow> app \<Rightarrow> app" where
  \<comment> \<open>running a callback; one that ends by a TypeError keeps the state reached so far\<close>
  "fire (DeviceTask device room action v pick) a =
     (case assign (room_key room) device v (devices a) of
        None \<Rightarrow> a
      | Some st \<Rightarrow>
          (let a1 = saveDeviceStates (a\<lparr>devices := st\<rparr>)
           in case formatSuccessMessage device room action v of
                None \<Rightarrow> a1
              | Some successMessage \<Rightarrow>
                  speak (getRandomResponse ''success'' pick successMessage)
                    (addToDebugPanel successMessage Success a1)))"
| "fire (SceneStep room device v) a =
     (case assign room device v (devices a) of
        None \<Rightarrow> a
      | Some st \<Rightarrow> a\<lparr>devices := st\<rparr>)"
| "fire (SceneDone sceneName pick) a =
     speak (getRandomResponse ''success'' pick (sceneName @ '' mode activated.'')) a"
| "fire (TimerFire timerId room device action) a =
     (if map_of (activeTimers a) timerId = None then a
      else
        case assign (room_key room) device
               (if action = ''turn off'' then Num 0 else Str ''stopped'') (devices a) of
          None \<Rightarrow> a
        | Some st \<Rightarrow>
            (let a1 = saveDeviceStates (a\<lparr>devices := st\<rparr>)
             in case room_replace room of
                  None \<Rightarrow> a1
                | Some roomName \<Rightarrow>
                    (let a2 = speak (''Timer completed. I've turned off the '' @ roomName @ '' ''
                                     @ device @ ''.'')
                                (addToDebugPanel (''Timer executed: '' @ action @ '' '' @ roomName
                                                  @ '' '' @ device) Success a1)
                     in a2\<lparr>activeTimers := AList.delete timerId (activeTimers a2)\<rparr>)))"
| "fire HelpTask a = addToDebugPanel helpText Success a"

section \<open>Orchestrator\<close>

definition processCommand :: "nat \<Rightarrow> nat \<Rightarrow> nat \<Rightarrow> string \<Rightarrow> real \<Rightarrow> app \<Rightarrow> outcome" where
  "processCommand now jitter pick command confidence a =
     (let a1 = addToDebugPanel ([CHR 0x22] @ command @ [CHR 0x22]) Normal a
      in if confidence < confidenceThreshold \<and> confidence < 1
           then returns
                  (speak ''Sorry, I didn't hear that clearly. Could you please repeat?''
                     (addToDebugPanel ''Low confidence, please repeat'' Error a1)) []
         else
           case parseCommand (toLowerCase command) of
             Some parsedCommand \<Rightarrow>
               (let out = executeCommand now jitter pick parsedCommand a1
                in if thrown out then out
                   else out\<lparr>app_of := addCommandToHistory command (Some parsedCommand) True (app_of out)\<rparr>)
           | None \<Rightarrow>
               returns
                 (addCommandToHistory command None False
                    (speak (getRandomResponse ''unrecognized'' pick [])
                       (addToDebugPanel ''Command not recognized'' Error a1))) [])"

section \<open>Event loop\<close>

text \<open>
  The world is the application, the pending timeouts with their due times in the order in
  which they were registered, and the clock in milliseconds. Timeouts fire in the order of
  their due times, and in registration order when these are equal. The due time of a
  timeout is the time of its registration plus its delay as the runtime keeps it.
\<close>

record world =
  app_state :: app
  queue :: "(nat \<times> task) list"
  clock :: nat

datatype event =
    Utter string real nat nat  \<comment> \<open>utterance, confidence, jitter, pick\<close>
  | Advance nat  \<comment> \<open>milliseconds that pass\<close>

definition boot :: "app \<Rightarrow> world" where
  "boot a = \<lparr>app_state = a, queue = [], clock = 0\<rparr>"

definition timeout_delay :: "nat \<Rightarrow> nat" where
  \<comment> \<open>\<open>setTimeout\<close> keeps its delay as a 32-bit signed integer: the delay is taken modulo
      \<open>2^32\<close>, and one that is negative as a signed number counts as 0\<close>
  "timeout_delay delay =
     (let wrapped = int delay mod 4294967296
      in if wrapped < 2147483648 then nat wrapped else 0)"

definition schedule :: "nat \<Rightarrow> (nat \<times> task) list \<Rightarrow> (nat \<times> task) list" where
  "schedule now ts = map (\<lambda>(delay, t). (now + timeout_delay delay, t)) ts"

definition call :: "(nat \<Rightarrow> app \<Rightarrow> outcome) \<Rightarrow> world \<Rightarrow> world" where
  \<comment> \<open>running a synchronous method at the current time and registering its timeouts\<close>
  "call f w =
     (let out = f (clock w) (app_state w)
      in w\<lparr>app_state := app_of out, queue := queue w @ schedule (clock w) (timeouts out)\<rparr>)"

definition utter :: "string \<Rightarrow> real \<Rightarrow> nat \<Rightarrow> nat \<Rightarrow> world \<Rightarrow> world" where
  "utter command confidence jitter pick w =
     call (\<lambda>now. processCommand now jitter pick command confidence) w"

definition advance :: "nat \<Rightarrow> world \<Rightarrow> world" where
  "advance ms w =
     (let t = clock w + ms;
          due = sort_key fst (filter (\<lambda>(d, task). d \<le> t) (queue w))
      in \<lparr>app_state = foldl (\<lambda>a (d, task). fire task a) (app_state w) due,
          queue = filter (\<lambda>(d, task). \<not> d \<le> t) (queue w),
          clock = t\<rparr>)"

fun step :: "world \<Rightarrow> event \<Rightarrow> world" where
  "step w (Utter command confidence jitter pick) = utter command confidence jitter pick w"
| "step w (Advance ms) = advance ms w"

definition run :: "event list \<Rightarrow> world \<Rightarrow> world" where
  "run evs w = foldl step w evs"

section \<open>Well-formed tasks and worlds\<close>

definition timer_value :: "string \<Rightarrow> jsval" where
  \<comment> \<open>\<open>action === 'turn off' ? 0 : 'stopped'\<close>, as in \<open>fire\<close>\<close>
  "timer_value action = (if action = ''turn off'' then Num 0 else Str ''stopped'')"

fun task_ok :: "task \<Rightarrow> bool" where
  \<comment> \<open>the value a task will store belongs to the domain of its device\<close>
  "task_ok (DeviceTask device room action v pick) = domain_ok device v"
| "task_ok (SceneStep room device v) = domain_ok device v"
| "task_ok (TimerFire timerId room device action) = domain_ok device (timer_value action)"
| "task_ok (SceneDone sceneName pick) = True"
| "task_ok HelpTask = True"

fun command_ok :: "command \<Rightarrow> bool" where
  "command_ok (Timer device room action duration unit) = domain_ok device (timer_value action)"
| "command_ok (Device device room action v) = domain_ok device v"
| "command_ok Help = True"
| "command_ok (Scene sceneName) = True"
| "command_ok (Settings action) = True"

definition world_ok :: "world \<Rightarrow> bool" where
  "world_ok w = (store_ok (devices (app_state w)) \<and> list_all (\<lambda>(due, t). task_ok t) (queue w))"

definition emitted :: "app \<Rightarrow> app \<Rightarrow> effect list" where
  \<comment> \<open>what was added to the trace between two states\<close>
  "emitted a a' = drop (length (trace a)) (trace a')"

definition appends_without :: "effect \<Rightarrow> app \<Rightarrow> app \<Rightarrow> bool" where
  \<comment> \<open>the trace only grew, and not by the given entry\<close>
  "appends_without e a a' = (\<exists>ys. trace a' = trace a @ ys \<and> e \<notin> set ys)"

definition low_confidence :: effect where
  "low_confidence = Debug ''Low confidence, please repeat'' Error"

section \<open>Properties of the room normalizer\<close>

lemma startsWith_prefix: "startsWith s p = prefix p s"
  by (induction s p rule: startsWith.induct) auto

lemma truncations_iff: "p \<in> set (truncations s) \<longleftrightarrow> p \<noteq> [] \<and> strict_prefix p s"
proof
  assume "p \<in> set (truncations s)"
  then obtain n where n: "1 \<le> n" "n < length s" "p = take n s"
    by (auto simp: truncations_def)
  then have "prefix p s" "length p < length s" "p \<noteq> []"
    by (auto simp: take_is_prefix)
  then show "p \<noteq> [] \<and> strict_prefix p s"
    by (auto simp: strict_prefix_def)
next
  assume a: "p \<noteq> [] \<and> strict_prefix p s"
  then obtain zs where zs: "s = p @ zs" "zs \<noteq> []"
    by (auto simp: strict_prefix_def prefix_def)
  then have "p = take (length p) s" "1 \<le> length p" "length p < length s"
    using a by (auto simp: Suc_le_eq)
  then show "p \<in> set (truncations s)"
    unfolding truncations_def by (metis (no_types, lifting) atLeastLessThan_iff imageI set_map set_upt)
qed

lemma roomMap_values: "(k, v) \<in> set roomMap \<Longrightarrow> v \<in> room_ids"
  unfolding roomMap_def room_ids_def by auto

lemma partial_match_in_table: "partial_match n = Some (k, v) \<Longrightarrow> (k, v) \<in> set roomMap"
  unfolding partial_match_def by (auto simp: find_Some_iff in_set_conv_nth)

lemma normalizeRoom_cases:
  "normalizeRoom s = RoomId ''living-room''
   \<or> (\<exists>k v. (k, v) \<in> set roomMap \<and> normalizeRoom s = RoomId v)
   \<or> (toLowerCase (trim s) \<in> set object_prototype_names
        \<and> normalizeRoom s = Builtin (toLowerCase (trim s)))"
proof (cases "s = []")
  case True
  then show ?thesis by (simp add: normalizeRoom_def)
next
  case False
  let ?n = "toLowerCase (trim s)"
  show ?thesis
  proof (cases "map_of roomMap ?n")
    case (Some v)
    then have "(?n, v) \<in> set roomMap" by (rule map_of_SomeD)
    moreover have "normalizeRoom s = RoomId v"
      using False Some by (simp add: normalizeRoom_def js_get_def)
    ultimately show ?thesis by blast
  next
    case None
    show ?thesis
    proof (cases "?n \<in> set object_prototype_names")
      case True
      then have "normalizeRoom s = Builtin ?n"
        using False None by (simp add: normalizeRoom_def js_get_def)
      with True show ?thesis by blast
    next
      case notin: False
      show ?thesis
      proof (cases "partial_match ?n")
        case pn: None
        then have "normalizeRoom s = RoomId ''living-room''"
          using False None notin by (simp add: normalizeRoom_def js_get_def)
        then show ?thesis by blast
      next
        case (Some kv)
        obtain k v where kv: "kv = (k, v)" by (cases kv)
        have "normalizeRoom s = RoomId v"
          using False None notin Some kv by (simp add: normalizeRoom_def js_get_def)
        moreover have "(k, v) \<in> set roomMap"
          using Some kv partial_match_in_table by simp
        ultimately show ?thesis by blast
      qed
    qed
  qed
qed

lemma living_room_id: "''living-room'' \<in> room_ids"
  by (simp add: room_ids_def)

lemma normalizeRoom_RoomId: "normalizeRoom s = RoomId r \<Longrightarrow> r \<in> room_ids"
  using normalizeRoom_cases [of s] roomMap_values living_room_id by auto

lemma normalizeRoom_own:
  "toLowerCase (trim s) \<notin> set object_prototype_names \<Longrightarrow> \<exists>r \<in> room_ids. normalizeRoom s = RoomId r"
  using normalizeRoom_cases [of s] roomMap_values living_room_id by auto

lemma aliases_checked: "list_all (\<lambda>(alias, canon). normalizeRoom alias = RoomId canon) roomMap"
  by code_simp

lemma normalizeRoom_alias: "(alias, canon) \<in> set roomMap \<Longrightarrow> normalizeRoom alias = RoomId canon"
  using aliases_checked by (auto simp: list_all_iff)

lemma normalizeRoom_default:
  assumes "s \<noteq> []" and "map_of roomMap (toLowerCase (trim s)) = None"
    and "toLowerCase (trim s) \<notin> set object_prototype_names"
    and "partial_match (toLowerCase (trim s)) = None"
  shows "normalizeRoom s = RoomId ''living-room''"
  using assms by (simp add: normalizeRoom_def js_get_def)

text \<open>
  C6. The normalizer is meant to return one of the three room ids for every input. It
  reads the alias table with \<open>roomMap[normalized]\<close>, which also finds the members every
  object inherits: for the input \<open>constructor\<close> the result is the built-in function of
  that name, not a room id. (For every other input the lemmas \<open>normalizeRoom_own\<close>,
  \<open>normalizeRoom_alias\<close> and \<open>normalizeRoom_default\<close> give what is intended.)
\<close>

theorem normalizeRoom_inherited_key:
  "normalizeRoom ''constructor'' = Builtin ''constructor''
   \<and> normalizeRoom ''constructor'' \<notin> RoomId ` room_ids"
proof -
  have "normalizeRoom ''constructor'' = Builtin ''constructor''" by code_simp
  then show ?thesis by auto
qed

lemma truncations_checked:
  "list_all (\<lambda>(alias, canon).
      list_all (\<lambda>p. case partial_match (toLowerCase (trim p)) of
                       None \<Rightarrow> False
                     | Some (key, value) \<Rightarrow>
                         normalizeRoom p = RoomId value \<and> (p \<in> set [''m'', ''ma''] \<or> value = canon))
               (truncations alias))
    roomMap"
  by code_simp

text \<open>
  C7 (as amended). For every non-empty proper prefix \<open>p\<close> of an alias, the normalizer
  returns the canonical room of the first table entry, in declaration order, whose key
  starts with the trimmed, lower-cased input or is a prefix of it; this is the canonical
  room of the alias itself unless \<open>p\<close> is \<open>m\<close> or \<open>ma\<close>.
\<close>
theorem normalizeRoom_truncation:
  assumes "(alias, canon) \<in> set roomMap" and "p \<noteq> []" and "strict_prefix p alias"
  shows "\<exists>key value. partial_match (toLowerCase (trim p)) = Some (key, value)
           \<and> normalizeRoom p = RoomId value
           \<and> (p \<notin> {''m'', ''ma''} \<longrightarrow> value = canon)"
proof -
  from assms have "p \<in> set (truncations alias)"
    by (simp add: truncations_iff)
  with assms(1) truncations_checked
  have "case partial_match (toLowerCase (trim p)) of
          None \<Rightarrow> False
        | Some (key, value) \<Rightarrow>
            normalizeRoom p = RoomId value \<and> (p \<in> set [''m'', ''ma''] \<or> value = canon)"
    by (auto simp: list_all_iff)
  then show ?thesis
    by (auto split: option.splits)
qed

theorem normalizeRoom_truncation_witness:
  "(''living room'', ''living-room'') \<in> set roomMap \<and> ''living roo'' \<noteq> []
   \<and> strict_prefix ''living roo'' ''living room''
   \<and> normalizeRoom ''living roo'' = RoomId ''living-room''"
proof -
  have h1: "(''living room'', ''living-room'') \<in> set roomMap" by (simp add: roomMap_def)
  have h2: "''living roo'' \<noteq> []" by simp
  have h3: "strict_prefix ''living roo'' ''living room''" by (simp add: strict_prefix_def)
  from normalizeRoom_truncation [OF h1 h2 h3] h1 h2 h3 show ?thesis by auto
qed

text \<open>
  The truncation \<open>ma\<close> of the alias \<open>master\<close> (bedroom) resolves to the living room,
  through the earlier entry \<open>main room\<close>.
\<close>
theorem normalizeRoom_truncation_counterexample:
  "(''master'', ''bedroom'') \<in> set roomMap \<and> strict_prefix ''ma'' ''master''
   \<and> normalizeRoom ''ma'' = RoomId ''living-room'' \<and> normalizeRoom ''ma'' \<noteq> RoomId ''bedroom''"
proof -
  have "normalizeRoom ''ma'' = RoomId ''living-room''" by code_simp
  then show ?thesis by (simp add: roomMap_def strict_prefix_def)
qed

section \<open>Properties of the intent parser\<close>

lemma first_pattern_in:
  "first_pattern ps c = Some cmd \<Longrightarrow> \<exists>(r, build) \<in> set ps. \<exists>m. cmd = build m"
  by (induction ps c rule: first_pattern.induct) (auto split: option.splits)

lemma patterns_build:
  assumes "(r, build) \<in> set patterns"
  shows "case build m of
           Device d room a v \<Rightarrow>
             domain_ok d v \<and> (d = ''security'' \<longrightarrow> room = RoomId ''kitchen'')
         | _ \<Rightarrow> False"
  using assms unfolding patterns_def
  by (auto simp: on_off_value_def music_value_def domain_ok_def Let_def)

lemma parse_shapes:
  assumes "parseCommand c = Some cmd"
  shows "cmd = Help \<or> (\<exists>n. map_of loadScenes n \<noteq> None \<and> cmd = Scene n)
         \<or> (\<exists>room dur unit. cmd = Timer ''lights'' room ''turn off'' dur unit)
         \<or> (\<exists>a. cmd = Settings a)
         \<or> (\<exists>d room a v. cmd = Device d room a v \<and> domain_ok d v
               \<and> (d = ''security'' \<longrightarrow> room = RoomId ''kitchen''))"
proof (cases "first_pattern patterns c = Some cmd")
  case True
  then obtain r build m where "(r, build) \<in> set patterns" "cmd = build m"
    using first_pattern_in by blast
  then show ?thesis using patterns_build [of r build m] by (auto split: command.splits)
next
  case False
  have scenes: "map_of loadScenes ''movie'' \<noteq> None" "map_of loadScenes ''goodnight'' \<noteq> None"
    "map_of loadScenes ''morning'' \<noteq> None" "map_of loadScenes ''party'' \<noteq> None"
    by (simp_all add: loadScenes_def)
  from assms False show ?thesis
    unfolding parseCommand_def using scenes
    by (auto split: if_splits option.splits)
qed

text \<open>
  C9. Every timer intent the parser produces has the device \<open>lights\<close> (and the action
  \<open>turn off\<close>), whatever room phrase and verb were matched.
\<close>

theorem timer_intent_device:
  assumes "parseCommand c = Some (Timer device room action duration unit)"
  shows "device = ''lights'' \<and> action = ''turn off''"
  using parse_shapes [OF assms] by auto

theorem timer_intent_device_witness:
  "parseCommand ''stop music in living room in 1 hour''
     = Some (Timer ''lights'' (RoomId ''living-room'') ''turn off'' 1 ''hour'')
   \<and> ''lights'' = ''lights'' \<and> ''turn off'' = ''turn off''"
proof -
  have h: "parseCommand ''stop music in living room in 1 hour''
             = Some (Timer ''lights'' (RoomId ''living-room'') ''turn off'' 1 ''hour'')"
    by code_simp
  from timer_intent_device [OF h] h show ?thesis by simp
qed

text \<open>
  C10. Every security intent the parser produces has the room \<open>kitchen\<close>, whatever room
  the utterance mentions.
\<close>

theorem security_intent_room:
  assumes "parseCommand c = Some (Device ''security'' room action v)"
  shows "room = RoomId ''kitchen''"
  using parse_shapes [OF assms] by auto

theorem security_intent_room_witness:
  "parseCommand ''disarm the security system in the bedroom''
     = Some (Device ''security'' (RoomId ''kitchen'') ''disarm'' (Str ''disarmed''))
   \<and> RoomId ''kitchen'' = RoomId ''kitchen''"
proof -
  have h: "parseCommand ''disarm the security system in the bedroom''
             = Some (Device ''security'' (RoomId ''kitchen'') ''disarm'' (Str ''disarmed''))"
    by code_simp
  from security_intent_room [OF h] h show ?thesis by simp
qed

section \<open>The value-domain invariant\<close>

lemma devices_speak [simp]: "devices (speak text a) = devices a"
  by (simp add: speak_def)

lemma devices_addToDebugPanel [simp]: "devices (addToDebugPanel text type a) = devices a"
  by (simp add: addToDebugPanel_def)

lemma devices_saveDeviceStates [simp]: "devices (saveDeviceStates a) = devices a"
  by (simp add: saveDeviceStates_def)

lemma devices_addCommandToHistory [simp]:
  "devices (addCommandToHistory command parsed success a) = devices a"
  by (simp add: addCommandToHistory_def Let_def)

lemma js_get_own: "map_of obj key = Some v \<Longrightarrow> js_get obj key = Own v"
  by (simp add: js_get_def)

lemma js_get_not_own:
  "map_of obj key = None \<Longrightarrow>
     js_get obj key = (if key \<in> set object_prototype_names then Inherited key else Undefined)"
  by (simp add: js_get_def)

lemma get_device_assign:
  assumes "assign room device v st = Some st'"
  shows "get_device st' r d
           = (if r = room \<and> d = device \<and> map_of st room \<noteq> None then Some v
              else get_device st r d)"
proof (cases "map_of st room")
  case None
  with assms have "st' = st"
    by (auto simp: assign_def js_get_not_own split: if_splits)
  with None show ?thesis by simp
next
  case (Some devs)
  with assms have st': "st' = AList.update room (AList.update device v devs) st"
    by (simp add: assign_def js_get_own)
  show ?thesis
    by (simp add: get_device_def st' Some update_conv')
qed

lemma assign_store_ok:
  assumes "store_ok st" and "domain_ok device v" and "assign room device v st = Some st'"
  shows "store_ok st'"
  using assms unfolding store_ok_def by (simp add: get_device_assign split: if_splits)

lemma parse_command_ok: "parseCommand c = Some cmd \<Longrightarrow> command_ok cmd"
  using parse_shapes [of c cmd] by (auto simp: timer_value_def domain_ok_def)

lemma scene_steps_ok:
  "list_all (\<lambda>(name, steps). list_all (\<lambda>(room, device, v). domain_ok device v) steps) loadScenes"
  by (simp add: loadScenes_def domain_ok_def)

lemma fire_store_ok:
  assumes "store_ok (devices a)" and "task_ok t"
  shows "store_ok (devices (fire t a))"
proof (cases t)
  case (DeviceTask device room action v pick)
  with assms show ?thesis
    by (auto simp: Let_def split: option.splits dest: assign_store_ok)
next
  case (SceneStep room device v)
  with assms show ?thesis
    by (auto split: option.splits dest: assign_store_ok)
next
  case (SceneDone sceneName pick)
  with assms show ?thesis by simp
next
  case (TimerFire timerId room device action)
  with assms show ?thesis
    by (auto simp: Let_def timer_value_def split: option.splits dest: assign_store_ok)
next
  case HelpTask
  with assms show ?thesis by simp
qed

lemma fire_all_store_ok:
  assumes "store_ok (devices a)" and "list_all (\<lambda>(due, t). task_ok t) ts"
  shows "store_ok (devices (foldl (\<lambda>a (due, t). fire t a) a ts))"
  using assms
proof (induction ts arbitrary: a)
  case Nil
  then show ?case by simp
next
  case (Cons x ts)
  obtain due t where x: "x = (due, t)" by (cases x)
  with Cons.prems have "store_ok (devices (fire t a))" by (simp add: fire_store_ok)
  with Cons show ?case by (simp add: x)
qed

lemma executeScene_sound:
  "devices (app_of (executeScene pick sceneName a)) = devices a
   \<and> list_all (\<lambda>(delay, t). task_ok t) (timeouts (executeScene pick sceneName a))"
proof (cases "map_of loadScenes sceneName")
  case None
  then show ?thesis by (simp add: executeScene_def js_get_not_own returns_def throws_def)
next
  case (Some scenes)
  then have "(sceneName, scenes) \<in> set loadScenes" by (rule map_of_SomeD)
  with scene_steps_ok have ok: "list_all (\<lambda>(room, device, v). domain_ok device v) scenes"
    by (auto simp: list_all_iff)
  have "list_all (\<lambda>(delay, t). task_ok t)
          (map (\<lambda>(index, (room, device, v)). (index * 500, SceneStep room device v))
               (enumerate 0 scenes))"
  proof -
    have "\<And>i x. (i, x) \<in> set (enumerate 0 scenes) \<Longrightarrow> x \<in> set scenes"
      by (auto simp: in_set_enumerate_eq)
    with ok show ?thesis
      by (fastforce simp: list_all_iff)
  qed
  with Some show ?thesis
    by (simp add: executeScene_def js_get_own returns_def Let_def)
qed

lemma setTimer_sound:
  assumes "domain_ok device (timer_value action)"
  shows "devices (app_of (setTimer now device room action duration unit a)) = devices a
   \<and> list_all (\<lambda>(delay, t). task_ok t) (timeouts (setTimer now device room action duration unit a))"
  using assms by (simp add: setTimer_def returns_def throws_def Let_def split: option.splits)

lemma handleSettings_sound:
  "devices (app_of (handleSettings action a)) = devices a
   \<and> timeouts (handleSettings action a) = []"
  by (simp add: handleSettings_def returns_def)

lemma executeCommand_sound:
  assumes "command_ok cmd"
  shows "devices (app_of (executeCommand now jitter pick cmd a)) = devices a
   \<and> list_all (\<lambda>(delay, t). task_ok t) (timeouts (executeCommand now jitter pick cmd a))"
proof (cases cmd)
  case Help
  then show ?thesis by (simp add: executeCommand_def showHelp_def returns_def)
next
  case (Scene sceneName)
  then show ?thesis using executeScene_sound by (simp add: executeCommand_def)
next
  case (Timer device room action duration unit)
  then show ?thesis using assms setTimer_sound by (simp add: executeCommand_def)
next
  case (Settings action)
  then show ?thesis using handleSettings_sound by (simp add: executeCommand_def)
next
  case (Device device room action v)
  then show ?thesis using assms
    by (simp add: executeCommand_def returns_def throws_def Let_def
          split: option.splits lookup.splits)
qed

lemma processCommand_sound:
  "devices (app_of (processCommand now jitter pick command confidence a)) = devices a
   \<and> list_all (\<lambda>(delay, t). task_ok t) (timeouts (processCommand now jitter pick command confidence a))"
proof (cases "confidence < confidenceThreshold \<and> confidence < 1")
  case True
  then show ?thesis by (simp add: processCommand_def returns_def Let_def)
next
  case False
  then have ncond: "(confidence < confidenceThreshold \<and> confidence < 1) = False" by simp
  show ?thesis
  proof (cases "parseCommand (toLowerCase command)")
    case None
    then show ?thesis by (simp add: processCommand_def returns_def Let_def ncond)
  next
    case (Some cmd)
    then have "command_ok cmd" by (rule parse_command_ok)
    from executeCommand_sound [OF this, of now jitter pick "addToDebugPanel ([CHR 0x22] @ command @ [CHR 0x22]) Normal a"]
    show ?thesis using Some by (simp add: processCommand_def Let_def ncond)
  qed
qed

lemma call_world_ok:
  assumes "world_ok w"
    and "devices (app_of (f (clock w) (app_state w))) = devices (app_state w)"
    and "list_all (\<lambda>(delay, t). task_ok t) (timeouts (f (clock w) (app_state w)))"
  shows "world_ok (call f w)"
  using assms by (auto simp: world_ok_def call_def Let_def schedule_def list_all_iff)

lemma utter_world_ok:
  assumes "world_ok w"
  shows "world_ok (utter command confidence jitter pick w)"
  unfolding utter_def
  using assms processCommand_sound [of "clock w" jitter pick command confidence "app_state w"]
  by (intro call_world_ok) simp_all

lemma advance_world_ok:
  assumes "world_ok w"
  shows "world_ok (advance ms w)"
proof -
  let ?due = "sort_key fst (filter (\<lambda>(d, task). d \<le> clock w + ms) (queue w))"
  from assms have "list_all (\<lambda>(due, t). task_ok t) ?due"
    by (auto simp: world_ok_def list_all_iff)
  with assms have "store_ok (devices (foldl (\<lambda>a (due, t). fire t a) (app_state w) ?due))"
    by (simp add: world_ok_def fire_all_store_ok)
  moreover from assms have "list_all (\<lambda>(due, t). task_ok t)
      (filter (\<lambda>(d, task). \<not> d \<le> clock w + ms) (queue w))"
    by (auto simp: world_ok_def list_all_iff)
  ultimately show ?thesis
    by (simp add: world_ok_def advance_def Let_def)
qed

lemma step_world_ok: "world_ok w \<Longrightarrow> world_ok (step w e)"
  by (cases e) (simp_all add: utter_world_ok advance_world_ok)

lemma run_world_ok: "world_ok w \<Longrightarrow> world_ok (run evs w)"
  unfolding run_def by (induction evs arbitrary: w) (simp_all add: step_world_ok)

lemma defaultStates_ok: "store_ok defaultStates"
  by (auto simp: store_ok_def get_device_def defaultStates_def domain_ok_def split: if_splits)

text \<open>
  C1. Starting from a store whose values lie in their domains (the default states, or a
  snapshot the application saved), every state reached by utterances (parsed and executed
  by \<open>processCommand\<close>: device commands, scenes, timers, settings) and by the passing of
  time (firing of device callbacks, scene steps and timers) has every lights value an
  integer in 0..100, every music value one of playing, paused, stopped, and every
  security value one of armed, disarmed.
\<close>

theorem device_values_in_domain:
  assumes "store_ok (devices a)"
  shows "store_ok (devices (app_state (run evs (boot a))))"
proof -
  from assms have "world_ok (boot a)" by (simp add: world_ok_def boot_def)
  then have "world_ok (run evs (boot a))" by (rule run_world_ok)
  then show ?thesis by (simp add: world_ok_def)
qed

theorem device_values_in_domain_witness:
  "store_ok (devices (init_app None True False))
   \<and> store_ok (devices (app_state
         (run [Utter ''dim bedroom lights to 50 percent'' 1 300 0, Advance 300]
              (boot (init_app None True False)))))
   \<and> get_device (devices (app_state
         (run [Utter ''dim bedroom lights to 50 percent'' 1 300 0, Advance 300]
              (boot (init_app None True False))))) ''bedroom'' ''lights'' = Some (Num 50)"
proof -
  have h: "store_ok (devices (init_app None True False))"
    by (simp add: init_app_def loadDeviceStates_def defaultStates_ok)
  have "get_device (devices (app_state
         (run [Utter ''dim bedroom lights to 50 percent'' 1 300 0, Advance 300]
              (boot (init_app None True False))))) ''bedroom'' ''lights'' = Some (Num 50)"
    by code_simp
  with h device_values_in_domain [OF h] show ?thesis by simp
qed

section \<open>Low-confidence rejection\<close>

lemma appends_without_refl [simp]: "appends_without e a a"
  by (simp add: appends_without_def)

lemma appends_without_trans:
  "appends_without e a b \<Longrightarrow> appends_without e b c \<Longrightarrow> appends_without e a c"
  by (auto simp: appends_without_def)

lemma appends_without_speak:
  assumes "appends_without (Debug text type) a b"
  shows "appends_without (Debug text type) a (speak sentence b)"
  using assms by (auto simp: appends_without_def speak_def)

lemma appends_without_debug:
  assumes "appends_without e a b" and "e \<noteq> Debug text type"
  shows "appends_without e a (addToDebugPanel text type b)"
  using assms by (auto simp: appends_without_def addToDebugPanel_def)

lemma appends_without_save:
  assumes "appends_without (Debug text type) a b"
  shows "appends_without (Debug text type) a (saveDeviceStates b)"
  using assms by (auto simp: appends_without_def saveDeviceStates_def)

lemma appends_without_history:
  assumes "appends_without e a b"
  shows "appends_without e a (addCommandToHistory command parsed success b)"
  using assms by (auto simp: appends_without_def addCommandToHistory_def Let_def)

lemma appends_without_emitted:
  "appends_without e a b \<Longrightarrow> e \<notin> set (emitted a b)"
  by (auto simp: appends_without_def emitted_def)

lemmas quiet_steps = appends_without_speak appends_without_debug appends_without_save
  appends_without_history appends_without_refl

lemma showHelp_quiet: "appends_without low_confidence a (app_of (showHelp a))"
  unfolding showHelp_def returns_def low_confidence_def
  by (simp add: quiet_steps)

lemma executeScene_quiet: "appends_without low_confidence a (app_of (executeScene pick sceneName a))"
  unfolding executeScene_def returns_def throws_def low_confidence_def
  by (simp add: quiet_steps Let_def split: lookup.splits)

lemma appends_without_fields [simp]:
  "appends_without e a (a\<lparr>activeTimers := ts\<rparr>)"
  "appends_without e a (a\<lparr>voiceResponseEnabled := b\<rparr>)"
  "appends_without e a (a\<lparr>useWhisperBackend := b\<rparr>)"
  by (simp_all add: appends_without_def)

lemma setTimer_quiet:
  "appends_without low_confidence a (app_of (setTimer now device room action duration unit a))"
  unfolding setTimer_def returns_def throws_def low_confidence_def Let_def
  by (simp add: quiet_steps split: option.splits)

lemma handleSettings_quiet:
  "appends_without low_confidence a (app_of (handleSettings action a))"
  unfolding handleSettings_def returns_def low_confidence_def
  by (simp add: quiet_steps)

lemma executeCommand_quiet:
  "appends_without low_confidence a (app_of (executeCommand now jitter pick cmd a))"
proof (cases cmd)
  case Help
  then show ?thesis by (simp add: executeCommand_def showHelp_quiet)
next
  case (Scene sceneName)
  then show ?thesis by (simp add: executeCommand_def executeScene_quiet)
next
  case (Timer device room action duration unit)
  then show ?thesis by (simp add: executeCommand_def setTimer_quiet)
next
  case (Settings action)
  then show ?thesis by (simp add: executeCommand_def handleSettings_quiet)
next
  case (Device device room action v)
  then show ?thesis
    unfolding executeCommand_def returns_def throws_def low_confidence_def
    by (simp add: quiet_steps Let_def split: option.splits lookup.splits)
qed

lemma processCommand_accepting_quiet:
  assumes "\<not> (confidence < confidenceThreshold \<and> confidence < 1)"
  shows "appends_without low_confidence a
           (app_of (processCommand now jitter pick command confidence a))"
proof -
  let ?a1 = "addToDebugPanel ([CHR 0x22] @ command @ [CHR 0x22]) Normal a"
  from assms have ncond: "(confidence < confidenceThreshold \<and> confidence < 1) = False" by simp
  have a1: "appends_without low_confidence a ?a1"
    unfolding low_confidence_def by (simp add: quiet_steps)
  show ?thesis
  proof (cases "parseCommand (toLowerCase command)")
    case None
    have "appends_without low_confidence a
            (addCommandToHistory command None False
               (speak (getRandomResponse ''unrecognized'' pick [])
                  (addToDebugPanel ''Command not recognized'' Error ?a1)))"
      using a1 unfolding low_confidence_def by (simp add: quiet_steps)
    with None show ?thesis
      by (simp add: processCommand_def Let_def ncond returns_def)
  next
    case (Some cmd)
    have "appends_without low_confidence a (app_of (executeCommand now jitter pick cmd ?a1))"
      using a1 executeCommand_quiet by (rule appends_without_trans)
    then have "appends_without low_confidence a
                 (addCommandToHistory command (Some cmd) True
                    (app_of (executeCommand now jitter pick cmd ?a1)))"
      by (rule appends_without_history)
    with \<open>appends_without low_confidence a (app_of (executeCommand now jitter pick cmd ?a1))\<close>
    show ?thesis using Some
      by (simp add: processCommand_def Let_def ncond)
  qed
qed

lemma processCommand_rejecting:
  assumes "confidence < confidenceThreshold \<and> confidence < 1"
  shows "processCommand now jitter pick command confidence a
           = returns
               (speak ''Sorry, I didn't hear that clearly. Could you please repeat?''
                  (addToDebugPanel ''Low confidence, please repeat'' Error
                     (addToDebugPanel ([CHR 0x22] @ command @ [CHR 0x22]) Normal a))) []"
  using assms by (simp add: processCommand_def Let_def)

text \<open>
  C2. An utterance with confidence \<open>c\<close> is rejected exactly when \<open>c < 0.7\<close> and \<open>c < 1\<close>.
  A rejected utterance is not parsed: the outcome is the heard entry, the low-confidence
  entry of the debug panel and the spoken request to repeat, with no change to the
  devices, the saved snapshot or the timers and with no timeout registered. An utterance
  that is not rejected never produces the low-confidence entry; in particular one with
  confidence 1 does not.
\<close>

theorem low_confidence_rejection:
  "(c < 7 / 10 \<and> c < 1 \<longrightarrow>
      processCommand now jitter pick command c a
        = returns
            (speak ''Sorry, I didn't hear that clearly. Could you please repeat?''
               (addToDebugPanel ''Low confidence, please repeat'' Error
                  (addToDebugPanel ([CHR 0x22] @ command @ [CHR 0x22]) Normal a))) []
      \<and> devices (app_of (processCommand now jitter pick command c a)) = devices a
      \<and> storage (app_of (processCommand now jitter pick command c a)) = storage a
      \<and> activeTimers (app_of (processCommand now jitter pick command c a)) = activeTimers a
      \<and> timeouts (processCommand now jitter pick command c a) = [])
   \<and> (low_confidence \<in> set (emitted a (app_of (processCommand now jitter pick command c a)))
        \<longleftrightarrow> c < 7 / 10 \<and> c < 1)
   \<and> low_confidence \<notin> set (emitted a (app_of (processCommand now jitter pick command 1 a)))"
proof -
  have rej: "c < 7 / 10 \<and> c < 1 \<Longrightarrow>
      processCommand now jitter pick command c a
        = returns
            (speak ''Sorry, I didn't hear that clearly. Could you please repeat?''
               (addToDebugPanel ''Low confidence, please repeat'' Error
                  (addToDebugPanel ([CHR 0x22] @ command @ [CHR 0x22]) Normal a))) []"
    using processCommand_rejecting [of c now jitter pick command a]
    by (simp add: confidenceThreshold_def)
  have fields: "c < 7 / 10 \<and> c < 1 \<Longrightarrow>
      devices (app_of (processCommand now jitter pick command c a)) = devices a
      \<and> storage (app_of (processCommand now jitter pick command c a)) = storage a
      \<and> activeTimers (app_of (processCommand now jitter pick command c a)) = activeTimers a
      \<and> timeouts (processCommand now jitter pick command c a) = []"
    by (simp add: rej returns_def speak_def addToDebugPanel_def)
  have there: "c < 7 / 10 \<and> c < 1 \<Longrightarrow>
      low_confidence \<in> set (emitted a (app_of (processCommand now jitter pick command c a)))"
    by (simp add: rej returns_def speak_def addToDebugPanel_def emitted_def low_confidence_def)
  have absent: "\<And>c'. \<not> (c' < 7 / 10 \<and> c' < 1) \<Longrightarrow>
      low_confidence \<notin> set (emitted a (app_of (processCommand now jitter pick command c' a)))"
    using processCommand_accepting_quiet appends_without_emitted
    by (simp add: confidenceThreshold_def)
  have one: "low_confidence \<notin> set (emitted a (app_of (processCommand now jitter pick command 1 a)))"
    by (rule absent) simp
  from rej fields there absent [of c] one show ?thesis by blast
qed

theorem low_confidence_rejection_witness:
  "(1 / 2 :: real) < 7 / 10 \<and> (1 / 2 :: real) < 1
   \<and> devices (app_of (processCommand 0 300 0 ''turn on living room lights'' (1 / 2)
                        (init_app None True False))) = devices (init_app None True False)
   \<and> timeouts (processCommand 0 300 0 ''turn on living room lights'' (1 / 2)
                  (init_app None True False)) = []
   \<and> low_confidence \<in> set (emitted (init_app None True False)
        (app_of (processCommand 0 300 0 ''turn on living room lights'' (1 / 2)
                   (init_app None True False))))
   \<and> low_confidence \<notin> set (emitted (init_app None True False)
        (app_of (processCommand 0 300 0 ''turn on living room lights'' 1
                   (init_app None True False))))"
proof -
  have h: "(1 / 2 :: real) < 7 / 10 \<and> (1 / 2 :: real) < 1" by simp
  from low_confidence_rejection [of "1 / 2" 0 300 0 "''turn on living room lights''"
         "init_app None True False"] h
  show ?thesis by blast
qed

section \<open>Deferred mutations of the store\<close>

lemma assign_present:
  assumes "map_of st room = Some devs"
  shows "assign room device v st = Some (AList.update room (AList.update device v devs) st)"
  using assms by (simp add: assign_def js_get_own)

lemma assign_rooms:
  assumes "assign room device v st = Some st'"
  shows "(map_of st' r = None) = (map_of st r = None)"
  using assms
  by (auto simp: assign_def js_get_def update_conv' split: option.splits if_splits)

lemma get_device_None_iff:
  "get_device st r d = None
     \<longleftrightarrow> map_of st r = None \<or> (\<exists>devs. map_of st r = Some devs \<and> map_of devs d = None)"
  by (auto simp: get_device_def split: option.splits)

lemma fire_DeviceTask:
  assumes "map_of (devices b) r \<noteq> None"
  shows "get_device (devices (fire (DeviceTask device (RoomId r) action v pick) b)) r' d'
           = (if r' = r \<and> d' = device then Some v else get_device (devices b) r' d')"
    and "storage (fire (DeviceTask device (RoomId r) action v pick) b)
           = Some (devices (fire (DeviceTask device (RoomId r) action v pick) b))"
proof -
  from assms obtain devs where devs: "map_of (devices b) r = Some devs" by auto
  let ?st = "AList.update r (AList.update device v devs) (devices b)"
  have a: "assign r device v (devices b) = Some ?st"
    using devs by (rule assign_present)
  have fired: "devices (fire (DeviceTask device (RoomId r) action v pick) b) = ?st"
    "storage (fire (DeviceTask device (RoomId r) action v pick) b) = Some ?st"
    using a by (simp_all add: room_key_def room_replace_def formatSuccessMessage_def Let_def
                  saveDeviceStates_def speak_def addToDebugPanel_def)
  show "get_device (devices (fire (DeviceTask device (RoomId r) action v pick) b)) r' d'
           = (if r' = r \<and> d' = device then Some v else get_device (devices b) r' d')"
    using get_device_assign [OF a] unfolding fired by (simp add: devs)
  show "storage (fire (DeviceTask device (RoomId r) action v pick) b)
           = Some (devices (fire (DeviceTask device (RoomId r) action v pick) b))"
    unfolding fired by simp
qed

section \<open>Device commands\<close>

text \<open>
  For a room id that names no inherited member the two guards of \<open>executeCommand\<close> do
  what they announce: a room the store lacks gives the room-not-found feedback, a room
  that lacks the device gives the device-not-found feedback, in both cases with the store
  and the saved snapshot as they were, nothing saved and no timeout registered; a command
  for a device the room has registers one callback, and when that has run the value is
  stored, so that reading the device returns it, and the snapshot is saved.
\<close>

lemma device_command_own_rooms:
  assumes "r \<notin> set object_prototype_names"
  shows
  "(map_of (devices a) r = None \<longrightarrow>
      executeCommand now jitter pick (Device device (RoomId r) action v) a
        = returns
            (speak (''Sorry, I don't have a '' @ replace_first r CHR ''-'' CHR '' ''
                    @ '' configured.'')
               (addToDebugPanel (''Room '' @ r @ '' not found'') Error a)) []
      \<and> Debug (''Room '' @ r @ '' not found'') Error
          \<in> set (emitted a
                (app_of (executeCommand now jitter pick (Device device (RoomId r) action v) a))))
   \<and> (map_of (devices a) r = Some devs \<and> map_of devs device = None \<longrightarrow>
      executeCommand now jitter pick (Device device (RoomId r) action v) a
        = returns
            (speak (''Sorry, I couldn't find the '' @ device @ '' in the ''
                    @ replace_first r CHR ''-'' CHR '' '' @ ''.'')
               (addToDebugPanel (''Device '' @ device @ '' not found in '' @ r) Error a)) []
      \<and> Debug (''Device '' @ device @ '' not found in '' @ r) Error
          \<in> set (emitted a
                (app_of (executeCommand now jitter pick (Device device (RoomId r) action v) a))))
   \<and> (get_device (devices a) r device = None \<longrightarrow>
      devices (app_of (executeCommand now jitter pick (Device device (RoomId r) action v) a))
        = devices a
      \<and> storage (app_of (executeCommand now jitter pick (Device device (RoomId r) action v) a))
          = storage a
      \<and> Saved st \<notin> set (emitted a
            (app_of (executeCommand now jitter pick (Device device (RoomId r) action v) a)))
      \<and> timeouts (executeCommand now jitter pick (Device device (RoomId r) action v) a) = [])
   \<and> (get_device (devices a) r device = Some old \<longrightarrow>
      executeCommand now jitter pick (Device device (RoomId r) action v) a
        = returns a [(jitter, DeviceTask device (RoomId r) action v pick)])
   \<and> (map_of (devices b) r \<noteq> None \<longrightarrow>
      get_device (devices (fire (DeviceTask device (RoomId r) action v pick) b)) r device = Some v
      \<and> storage (fire (DeviceTask device (RoomId r) action v pick) b)
          = Some (devices (fire (DeviceTask device (RoomId r) action v pick) b)))
   \<and> (queue w = [] \<and> get_device (devices (app_state w)) r device = Some old \<longrightarrow>
      get_device (devices (app_state (advance (timeout_delay jitter)
        (call (\<lambda>now. executeCommand now jitter pick (Device device (RoomId r) action v)) w))))
        r device = Some v)"
proof -
  let ?cmd = "Device device (RoomId r) action v"
  let ?t = "DeviceTask device (RoomId r) action v pick"
  have undef: "\<And>x. map_of (devices x) r = None \<Longrightarrow> js_get (devices x) r = Undefined"
    using assms by (simp add: js_get_not_own)
  have room: "map_of (devices a) r = None \<Longrightarrow>
      executeCommand now jitter pick ?cmd a
        = returns
            (speak (''Sorry, I don't have a '' @ replace_first r CHR ''-'' CHR '' ''
                    @ '' configured.'')
               (addToDebugPanel (''Room '' @ r @ '' not found'') Error a)) []"
    by (simp add: executeCommand_def room_key_def room_replace_def undef)
  have room_entry: "map_of (devices a) r = None \<Longrightarrow>
      Debug (''Room '' @ r @ '' not found'') Error
        \<in> set (emitted a (app_of (executeCommand now jitter pick ?cmd a)))"
    by (simp add: room returns_def speak_def addToDebugPanel_def emitted_def)
  have dev: "map_of (devices a) r = Some devs \<and> map_of devs device = None \<Longrightarrow>
      executeCommand now jitter pick ?cmd a
        = returns
            (speak (''Sorry, I couldn't find the '' @ device @ '' in the ''
                    @ replace_first r CHR ''-'' CHR '' '' @ ''.'')
               (addToDebugPanel (''Device '' @ device @ '' not found in '' @ r) Error a)) []"
    by (simp add: executeCommand_def room_key_def room_replace_def js_get_own has_own_def)
  have dev_entry: "map_of (devices a) r = Some devs \<and> map_of devs device = None \<Longrightarrow>
      Debug (''Device '' @ device @ '' not found in '' @ r) Error
        \<in> set (emitted a (app_of (executeCommand now jitter pick ?cmd a)))"
    by (simp add: dev returns_def speak_def addToDebugPanel_def emitted_def)
  have untouched: "get_device (devices a) r device = None \<Longrightarrow>
      devices (app_of (executeCommand now jitter pick ?cmd a)) = devices a
      \<and> storage (app_of (executeCommand now jitter pick ?cmd a)) = storage a
      \<and> Saved st \<notin> set (emitted a (app_of (executeCommand now jitter pick ?cmd a)))
      \<and> timeouts (executeCommand now jitter pick ?cmd a) = []"
  proof -
    assume "get_device (devices a) r device = None"
    then consider "map_of (devices a) r = None"
      | ds where "map_of (devices a) r = Some ds" "map_of ds device = None"
      by (auto simp: get_device_None_iff)
    then show ?thesis
    proof cases
      case 1
      then show ?thesis
        by (simp add: executeCommand_def room_key_def room_replace_def Let_def undef
              returns_def speak_def addToDebugPanel_def emitted_def)
    next
      case 2
      then show ?thesis
        by (simp add: executeCommand_def room_key_def room_replace_def Let_def js_get_own
              has_own_def returns_def speak_def addToDebugPanel_def emitted_def)
    qed
  qed
  have valid: "\<And>x. get_device (devices x) r device = Some old \<Longrightarrow>
      executeCommand now jitter pick ?cmd x = returns x [(jitter, ?t)]" for now
    by (auto simp: get_device_def executeCommand_def room_key_def js_get_own has_own_def
          split: option.splits)
  have fired: "\<And>x. map_of (devices x) r \<noteq> None \<Longrightarrow>
      get_device (devices (fire ?t x)) r device = Some v
      \<and> storage (fire ?t x) = Some (devices (fire ?t x))"
    using fire_DeviceTask by simp
  have world: "queue w = [] \<and> get_device (devices (app_state w)) r device = Some old \<Longrightarrow>
      get_device (devices (app_state (advance (timeout_delay jitter)
        (call (\<lambda>now. executeCommand now jitter pick ?cmd) w)))) r device = Some v"
  proof -
    assume h: "queue w = [] \<and> get_device (devices (app_state w)) r device = Some old"
    then have present: "map_of (devices (app_state w)) r \<noteq> None"
      by (auto simp: get_device_def split: option.splits)
    have "advance (timeout_delay jitter) (call (\<lambda>now. executeCommand now jitter pick ?cmd) w)
            = \<lparr>app_state = fire ?t (app_state w), queue = [],
               clock = clock w + timeout_delay jitter\<rparr>"
      using h valid [of "app_state w" "clock w"]
      by (simp add: call_def advance_def schedule_def returns_def Let_def)
    then show ?thesis using fired [OF present] by simp
  qed
  from room room_entry dev dev_entry untouched valid [of a now] fired [of b] world
  show ?thesis by blast
qed

text \<open>
  C4. A device command whose room id is absent from the store is to give the
  room-not-found feedback. The guard \<open>!this.devices[room]\<close> also finds inherited members:
  for the room id \<open>constructor\<close>, which the default store lacks, the command is taken
  past the room guard and answered with the device-not-found feedback.
\<close>

theorem inherited_room_not_reported:
  "map_of (devices (init_app None True False)) ''constructor'' = None
   \<and> emitted (init_app None True False)
        (app_of (executeCommand 0 300 0
                   (Device ''lights'' (RoomId ''constructor'') ''test'' (Num 100))
                   (init_app None True False)))
       = [Debug ''Device lights not found in constructor'' Error,
          Spoken ''Sorry, I couldn't find the lights in the constructor.'']
   \<and> timeouts (executeCommand 0 300 0
                  (Device ''lights'' (RoomId ''constructor'') ''test'' (Num 100))
                  (init_app None True False)) = []"
  by code_simp

section \<open>Timers\<close>

lemma setTimer_room:
  "setTimer now device (RoomId r) action duration unit a
     = returns
         (speak (''Timer set. I'll '' @ action @ '' the '' @ replace_first r CHR ''-'' CHR '' ''
                 @ '' '' @ device @ '' in '' @ show_nat duration @ '' ''
                 @ (if str_includes unit ''hour'' then ''hour'' else ''minute'')
                 @ (if duration > 1 then ''s'' else []) @ ''.'')
            (addToDebugPanel (''Timer set: '' @ action @ '' '' @ replace_first r CHR ''-'' CHR '' ''
                 @ '' '' @ device @ '' in '' @ show_nat duration @ '' ''
                 @ (if str_includes unit ''hour'' then ''hour'' else ''minute'')
                 @ (if duration > 1 then ''s'' else [])) Success
               (a\<lparr>activeTimers :=
                    AList.update (timer_id (RoomId r) device now)
                      \<lparr>t_room = RoomId r, t_device = device, t_action = action,
                       t_endTime = now + (if str_includes unit ''hour'' then duration * 3600000
                                          else duration * 60000),
                       t_duration = duration,
                       t_unit = (if str_includes unit ''hour'' then ''hour'' else ''minute'')\<rparr>
                      (activeTimers a)\<rparr>)))
         [(if str_includes unit ''hour'' then duration * 3600000 else duration * 60000,
           TimerFire (timer_id (RoomId r) device now) (RoomId r) device action)]"
  by (simp add: setTimer_def Let_def room_replace_def)

lemma setTimer_fields:
  "devices (app_of (setTimer now device (RoomId r) action duration unit a)) = devices a"
  "storage (app_of (setTimer now device (RoomId r) action duration unit a)) = storage a"
  "map_of (activeTimers (app_of (setTimer now device (RoomId r) action duration unit a)))
     (timer_id (RoomId r) device now) \<noteq> None"
  "timeouts (setTimer now device (RoomId r) action duration unit a)
     = [(if str_includes unit ''hour'' then duration * 3600000 else duration * 60000,
         TimerFire (timer_id (RoomId r) device now) (RoomId r) device action)]"
  unfolding setTimer_room
  by (simp_all add: returns_def speak_def addToDebugPanel_def update_conv')

lemma fire_TimerFire:
  assumes "map_of (activeTimers b) timerId \<noteq> None" and "map_of (devices b) r \<noteq> None"
  shows "get_device (devices (fire (TimerFire timerId (RoomId r) device action) b)) r' d'
           = (if r' = r \<and> d' = device then Some (timer_value action)
              else get_device (devices b) r' d')"
    and "storage (fire (TimerFire timerId (RoomId r) device action) b)
           = Some (devices (fire (TimerFire timerId (RoomId r) device action) b))"
    and "map_of (activeTimers (fire (TimerFire timerId (RoomId r) device action) b)) timerId = None"
proof -
  from assms obtain devs where devs: "map_of (devices b) r = Some devs" by auto
  from assms obtain tm where tm: "map_of (activeTimers b) timerId = Some tm" by auto
  let ?st = "AList.update r (AList.update device (timer_value action) devs) (devices b)"
  have a: "assign r device (timer_value action) (devices b) = Some ?st"
    using devs by (rule assign_present)
  then have a': "assign r device (if action = ''turn off'' then Num 0 else Str ''stopped'')
                   (devices b) = Some ?st"
    by (simp add: timer_value_def)
  have fired: "devices (fire (TimerFire timerId (RoomId r) device action) b) = ?st"
    "storage (fire (TimerFire timerId (RoomId r) device action) b) = Some ?st"
    "activeTimers (fire (TimerFire timerId (RoomId r) device action) b)
       = AList.delete timerId (activeTimers b)"
    using a' tm
    by (simp_all add: room_key_def room_replace_def Let_def
          saveDeviceStates_def speak_def addToDebugPanel_def)
  show "get_device (devices (fire (TimerFire timerId (RoomId r) device action) b)) r' d'
           = (if r' = r \<and> d' = device then Some (timer_value action)
              else get_device (devices b) r' d')"
    using get_device_assign [OF a] unfolding fired by (simp add: devs)
  show "storage (fire (TimerFire timerId (RoomId r) device action) b)
           = Some (devices (fire (TimerFire timerId (RoomId r) device action) b))"
    unfolding fired by simp
  show "map_of (activeTimers (fire (TimerFire timerId (RoomId r) device action) b)) timerId = None"
    unfolding fired by (simp add: delete_conv')
qed

lemma timeout_delay_small: "delay \<le> 2147483647 \<Longrightarrow> timeout_delay delay = delay"
  by (simp add: timeout_delay_def Let_def)

text \<open>
  A timer is registered with the delay \<open>duration * 3600000\<close> when the unit contains
  \<open>hour\<close> and \<open>duration * 60000\<close> otherwise. With no other timeout pending and the room
  in the store, a lights timer leaves the store as it is and stays in the registry of
  active timers for as long as less than the delay as the runtime keeps it has passed;
  once that has passed the lights of the room are 0, the snapshot is saved and the timer
  is gone from the registry.
\<close>

lemma timer_fires_at_runtime_delay:
  "timeouts (setTimer now device (RoomId r) action duration unit a)
     = [(if str_includes unit ''hour'' then duration * 3600000 else duration * 60000,
         TimerFire (timer_id (RoomId r) device now) (RoomId r) device action)]
   \<and> map_of (activeTimers (app_of (setTimer now device (RoomId r) action duration unit a)))
        (timer_id (RoomId r) device now) \<noteq> None
   \<and> (queue w = [] \<and> map_of (devices (app_state w)) r \<noteq> None
        \<and> ms < timeout_delay (if str_includes unit ''hour'' then duration * 3600000
                               else duration * 60000) \<longrightarrow>
        devices (app_state (advance ms
           (call (\<lambda>now. setTimer now ''lights'' (RoomId r) ''turn off'' duration unit) w)))
          = devices (app_state w)
        \<and> map_of (activeTimers (app_state (advance ms
             (call (\<lambda>now. setTimer now ''lights'' (RoomId r) ''turn off'' duration unit) w))))
             (timer_id (RoomId r) ''lights'' (clock w)) \<noteq> None)
   \<and> (queue w = [] \<and> map_of (devices (app_state w)) r \<noteq> None
        \<and> timeout_delay (if str_includes unit ''hour'' then duration * 3600000
                          else duration * 60000) \<le> ms \<longrightarrow>
        get_device (devices (app_state (advance ms
           (call (\<lambda>now. setTimer now ''lights'' (RoomId r) ''turn off'' duration unit) w))))
          r ''lights'' = Some (Num 0)
        \<and> storage (app_state (advance ms
             (call (\<lambda>now. setTimer now ''lights'' (RoomId r) ''turn off'' duration unit) w)))
            = Some (devices (app_state (advance ms
                (call (\<lambda>now. setTimer now ''lights'' (RoomId r) ''turn off'' duration unit) w))))
        \<and> map_of (activeTimers (app_state (advance ms
             (call (\<lambda>now. setTimer now ''lights'' (RoomId r) ''turn off'' duration unit) w))))
             (timer_id (RoomId r) ''lights'' (clock w)) = None)"
proof -
  let ?delay = "if str_includes unit ''hour'' then duration * 3600000 else duration * 60000"
  let ?id = "timer_id (RoomId r) ''lights'' (clock w)"
  let ?t = "TimerFire ?id (RoomId r) ''lights'' ''turn off''"
  let ?out = "setTimer (clock w) ''lights'' (RoomId r) ''turn off'' duration unit (app_state w)"
  let ?w1 = "call (\<lambda>now. setTimer now ''lights'' (RoomId r) ''turn off'' duration unit) w"
  have w1: "queue w = [] \<Longrightarrow>
      ?w1 = w\<lparr>app_state := app_of ?out, queue := [(clock w + timeout_delay ?delay, ?t)]\<rparr>"
    by (simp add: call_def Let_def schedule_def setTimer_fields)
  have early: "queue w = [] \<and> map_of (devices (app_state w)) r \<noteq> None
        \<and> ms < timeout_delay ?delay \<Longrightarrow>
      devices (app_state (advance ms ?w1)) = devices (app_state w)
      \<and> map_of (activeTimers (app_state (advance ms ?w1))) ?id \<noteq> None"
  proof -
    assume h: "queue w = [] \<and> map_of (devices (app_state w)) r \<noteq> None
        \<and> ms < timeout_delay ?delay"
    then have "advance ms ?w1
        = \<lparr>app_state = app_of ?out, queue = [(clock w + timeout_delay ?delay, ?t)],
           clock = clock w + ms\<rparr>"
      by (simp add: w1 advance_def Let_def)
    then show ?thesis by (simp add: setTimer_fields)
  qed
  have late: "queue w = [] \<and> map_of (devices (app_state w)) r \<noteq> None
        \<and> timeout_delay ?delay \<le> ms \<Longrightarrow>
      get_device (devices (app_state (advance ms ?w1))) r ''lights'' = Some (Num 0)
      \<and> storage (app_state (advance ms ?w1)) = Some (devices (app_state (advance ms ?w1)))
      \<and> map_of (activeTimers (app_state (advance ms ?w1))) ?id = None"
  proof -
    assume h: "queue w = [] \<and> map_of (devices (app_state w)) r \<noteq> None
        \<and> timeout_delay ?delay \<le> ms"
    then have adv: "advance ms ?w1
        = \<lparr>app_state = fire ?t (app_of ?out), queue = [], clock = clock w + ms\<rparr>"
      by (simp add: w1 advance_def Let_def del: fire.simps)
    have reg: "map_of (activeTimers (app_of ?out)) ?id \<noteq> None"
      by (rule setTimer_fields)
    have pres: "map_of (devices (app_of ?out)) r \<noteq> None"
      using h by (simp add: setTimer_fields)
    from fire_TimerFire [OF reg pres, of "''lights''" "''turn off''"]
    show ?thesis unfolding adv by (simp add: timer_value_def del: fire.simps)
  qed
  from setTimer_fields(3,4) [of now device r action duration unit a] early late
  show ?thesis by blast
qed

text \<open>
  As long as the delay is at most 2147483647 ms (about 24.8 days) the runtime keeps it as
  it is, and the timer fires exactly when \<open>duration * 60000\<close> ms have passed: with 10
  minutes, after 600000 ms and not before.
\<close>

lemma ten_minute_timer:
  "timeouts (setTimer 0 ''lights'' (RoomId ''living-room'') ''turn off'' 10 ''minutes''
               (init_app None True False))
       = [(600000, TimerFire (timer_id (RoomId ''living-room'') ''lights'' 0)
                     (RoomId ''living-room'') ''lights'' ''turn off'')]
   \<and> get_device (devices (app_state (advance 599999
        (call (\<lambda>now. setTimer now ''lights'' (RoomId ''living-room'') ''turn off'' 10 ''minutes'')
           (run [Utter ''turn on living room lights'' 1 200 0, Advance 200]
                (boot (init_app None True False)))))))
        ''living-room'' ''lights'' = Some (Num 100)
   \<and> get_device (devices (app_state (advance 600000
        (call (\<lambda>now. setTimer now ''lights'' (RoomId ''living-room'') ''turn off'' 10 ''minutes'')
           (run [Utter ''turn on living room lights'' 1 200 0, Advance 200]
                (boot (init_app None True False)))))))
        ''living-room'' ''lights'' = Some (Num 0)"
proof -
  let ?w = "run [Utter ''turn on living room lights'' 1 200 0, Advance 200]
                (boot (init_app None True False))"
  have q: "queue ?w = []" by code_simp
  have l: "get_device (devices (app_state ?w)) ''living-room'' ''lights'' = Some (Num 100)"
    by code_simp
  then have p: "map_of (devices (app_state ?w)) ''living-room'' \<noteq> None"
    by (auto simp: get_device_def split: option.splits)
  have u: "str_includes ''minutes'' ''hour'' = False" by simp
  have d: "(if str_includes ''minutes'' ''hour'' then 10 * 3600000 else 10 * 60000) = (600000 :: nat)"
    by (simp add: u)
  have e: "timeout_delay 600000 = 600000" by (simp add: timeout_delay_small)
  note T = timer_fires_at_runtime_delay [where r = "''living-room''" and duration = 10
             and unit = "''minutes''" and w = ?w, unfolded d e]
  from T [of 0 "''lights''" "''turn off''" "init_app None True False" 599999]
  have t0: "timeouts (setTimer 0 ''lights'' (RoomId ''living-room'') ''turn off'' 10 ''minutes''
                  (init_app None True False))
       = [(600000, TimerFire (timer_id (RoomId ''living-room'') ''lights'' 0)
                     (RoomId ''living-room'') ''lights'' ''turn off'')]"
    by blast
  from T [of 0 "''lights''" "''turn off''" "init_app None True False" 599999] q p
  have b: "devices (app_state (advance 599999
        (call (\<lambda>now. setTimer now ''lights'' (RoomId ''living-room'') ''turn off'' 10 ''minutes'') ?w)))
      = devices (app_state ?w)"
    by simp
  from T [of 0 "''lights''" "''turn off''" "init_app None True False" 600000] q p
  have f: "get_device (devices (app_state (advance 600000
        (call (\<lambda>now. setTimer now ''lights'' (RoomId ''living-room'') ''turn off'' 10 ''minutes'') ?w))))
        ''living-room'' ''lights'' = Some (Num 0)"
    by simp
  from l t0 b f show ?thesis by simp
qed

lemma parse_long_timer:
  "parseCommand ''turn off bedroom lights in 40000 minutes''
     = Some (Timer ''lights'' (RoomId ''bedroom'') ''turn off'' 40000 ''minutes'')"
proof -
  let ?c = "''turn off bedroom lights in 40000 minutes''"
  have groups: "map_option (\<lambda>m. (grp m 2, grp m 3, grp m 4)) (search timer_re ?c)
                  = Some (''bedroom lights'', ''40000'', ''minutes'')"
    by code_simp
  then obtain m where m: "search timer_re ?c = Some m" "grp m 2 = ''bedroom lights''"
    "grp m 3 = ''40000''" "grp m 4 = ''minutes''"
    by auto
  have room: "normalizeRoom ''bedroom lights'' = RoomId ''bedroom''" by code_simp
  have unit: "toLowerCase ''minutes'' = ''minutes''" by code_simp
  have number: "parseInt ''40000'' = 40000" by (simp add: parseInt_def is_digit_def)
  have kw: "\<not> str_includes ?c ''help''" "\<not> str_includes ?c ''what can you do''"
    "\<not> str_includes ?c ''commands''" "\<not> str_includes ?c ''movie mode''"
    "\<not> str_includes ?c ''cinema mode''" "\<not> str_includes ?c ''goodnight''"
    "\<not> str_includes ?c ''good night''" "\<not> str_includes ?c ''wake up''"
    "\<not> str_includes ?c ''morning mode''" "\<not> str_includes ?c ''party mode''"
    "\<not> str_includes ?c ''party time''"
    by code_simp+
  show ?thesis
    unfolding parseCommand_def
    by (simp only: kw m room unit number simp_thms if_False option.case)
qed

text \<open>
  C5. A timer is to fire when \<open>duration * 60000\<close> ms (or \<open>duration * 3600000\<close> ms) have
  passed. The utterance \<open>turn off bedroom lights in 40000 minutes\<close> is parsed to a timer
  of 40000 minutes, for which \<open>setTimer\<close> records the end time 2400000000 ms from now and
  hands the delay 2400000000 to \<open>setTimeout\<close>. That is more than a 32-bit signed delay
  holds, and the callback runs at once: with no time passed the bedroom lights, which
  were on, are 0 and the timer is gone from the registry.
\<close>

theorem timer_delay_overflow:
  "parseCommand ''turn off bedroom lights in 40000 minutes''
     = Some (Timer ''lights'' (RoomId ''bedroom'') ''turn off'' 40000 ''minutes'')
   \<and> timeouts (setTimer 0 ''lights'' (RoomId ''bedroom'') ''turn off'' 40000 ''minutes''
                  (init_app None True False))
       = [(2400000000, TimerFire (timer_id (RoomId ''bedroom'') ''lights'' 0)
                         (RoomId ''bedroom'') ''lights'' ''turn off'')]
   \<and> map_option t_endTime
        (map_of (activeTimers (app_of (setTimer 0 ''lights'' (RoomId ''bedroom'') ''turn off''
                                          40000 ''minutes'' (init_app None True False))))
                (timer_id (RoomId ''bedroom'') ''lights'' 0))
       = Some 2400000000
   \<and> get_device (devices (app_state
        (run [Utter ''turn on bedroom lights'' 1 200 0, Advance 200]
             (boot (init_app None True False))))) ''bedroom'' ''lights'' = Some (Num 100)
   \<and> get_device (devices (app_state (advance 0
        (call (\<lambda>now. setTimer now ''lights'' (RoomId ''bedroom'') ''turn off'' 40000 ''minutes'')
           (run [Utter ''turn on bedroom lights'' 1 200 0, Advance 200]
                (boot (init_app None True False)))))))
        ''bedroom'' ''lights'' = Some (Num 0)
   \<and> map_of (activeTimers (app_state (advance 0
        (call (\<lambda>now. setTimer now ''lights'' (RoomId ''bedroom'') ''turn off'' 40000 ''minutes'')
           (run [Utter ''turn on bedroom lights'' 1 200 0, Advance 200]
                (boot (init_app None True False)))))))
        (timer_id (RoomId ''bedroom'') ''lights''
           (clock (run [Utter ''turn on bedroom lights'' 1 200 0, Advance 200]
                       (boot (init_app None True False))))) = None"
proof -
  let ?w = "run [Utter ''turn on bedroom lights'' 1 200 0, Advance 200]
                (boot (init_app None True False))"
  have q: "queue ?w = []" by code_simp
  have l: "get_device (devices (app_state ?w)) ''bedroom'' ''lights'' = Some (Num 100)"
    by code_simp
  then have p: "map_of (devices (app_state ?w)) ''bedroom'' \<noteq> None"
    by (auto simp: get_device_def split: option.splits)
  have u: "str_includes ''minutes'' ''hour'' = False" by simp
  have d: "(if str_includes ''minutes'' ''hour'' then 40000 * 3600000 else 40000 * 60000)
             = (2400000000 :: nat)"
    by (simp add: u)
  have e: "timeout_delay 2400000000 = 0" by (simp add: timeout_delay_def Let_def)
  have endTime: "map_option t_endTime
        (map_of (activeTimers (app_of (setTimer 0 ''lights'' (RoomId ''bedroom'') ''turn off''
                                          40000 ''minutes'' (init_app None True False))))
                (timer_id (RoomId ''bedroom'') ''lights'' 0))
       = Some 2400000000"
    unfolding setTimer_room
    by (simp add: returns_def speak_def addToDebugPanel_def update_conv' u)
  note T = timer_fires_at_runtime_delay [where r = "''bedroom''" and duration = 40000
             and unit = "''minutes''" and w = ?w and ms = 0, unfolded d e]
  from T [of 0 "''lights''" "''turn off''" "init_app None True False"]
  have t0: "timeouts (setTimer 0 ''lights'' (RoomId ''bedroom'') ''turn off'' 40000 ''minutes''
                  (init_app None True False))
       = [(2400000000, TimerFire (timer_id (RoomId ''bedroom'') ''lights'' 0)
                         (RoomId ''bedroom'') ''lights'' ''turn off'')]"
    by blast
  from T [of 0 "''lights''" "''turn off''" "init_app None True False"] q p
  have f: "get_device (devices (app_state (advance 0
        (call (\<lambda>now. setTimer now ''lights'' (RoomId ''bedroom'') ''turn off'' 40000 ''minutes'') ?w))))
        ''bedroom'' ''lights'' = Some (Num 0)"
    "map_of (activeTimers (app_state (advance 0
        (call (\<lambda>now. setTimer now ''lights'' (RoomId ''bedroom'') ''turn off'' 40000 ''minutes'') ?w))))
        (timer_id (RoomId ''bedroom'') ''lights'' (clock ?w)) = None"
    by simp_all
  from parse_long_timer t0 endTime l f show ?thesis by simp
qed

section \<open>Scenes\<close>

lemma fire_SceneStep:
  assumes "map_of (devices b) room \<noteq> None"
  shows "get_device (devices (fire (SceneStep room device v) b)) r d
           = (if r = room \<and> d = device then Some v else get_device (devices b) r d)"
    and "(map_of (devices (fire (SceneStep room device v) b)) r = None)
           = (map_of (devices b) r = None)"
proof -
  from assms obtain devs where devs: "map_of (devices b) room = Some devs" by auto
  let ?st = "AList.update room (AList.update device v devs) (devices b)"
  have a: "assign room device v (devices b) = Some ?st"
    using devs by (rule assign_present)
  have fired: "devices (fire (SceneStep room device v) b) = ?st"
    using a by simp
  show "get_device (devices (fire (SceneStep room device v) b)) r d
           = (if r = room \<and> d = device then Some v else get_device (devices b) r d)"
    using get_device_assign [OF a] unfolding fired by (simp add: devs)
  show "(map_of (devices (fire (SceneStep room device v) b)) r = None)
           = (map_of (devices b) r = None)"
    using assign_rooms [OF a] unfolding fired by simp
qed

lemma fire_SceneStep_fields:
  "trace (fire (SceneStep room device v) b) = trace b"
  "storage (fire (SceneStep room device v) b) = storage b"
  "synthesis (fire (SceneStep room device v) b) = synthesis b"
  "voiceResponseEnabled (fire (SceneStep room device v) b) = voiceResponseEnabled b"
  by (simp_all split: option.splits)

lemma scene_steps_keep_trace:
  assumes "\<forall>(d, t) \<in> set ts. \<exists>room device v. t = SceneStep room device v"
  shows "trace (foldl (\<lambda>a (d, task). fire task a) b ts) = trace b"
  using assms
proof (induction ts arbitrary: b)
  case Nil
  then show ?case by simp
next
  case (Cons x ts)
  obtain d t where x: "x = (d, t)" by (cases x)
  with Cons.prems obtain room device v where "t = SceneStep room device v" by auto
  then have "trace (fire t b) = trace b"
    by (simp only: fire_SceneStep_fields)
  with Cons show ?case by (simp add: x del: fire.simps)
qed

lemma executeScene_goodnight:
  "executeScene pick ''goodnight'' a
     = returns
         (saveDeviceStates
            (speak ''Activating goodnight mode.''
               (addToDebugPanel ''Executing goodnight scene...'' Success a)))
         [(0, SceneStep ''living-room'' ''lights'' (Num 0)),
          (500, SceneStep ''bedroom'' ''lights'' (Num 0)),
          (1000, SceneStep ''kitchen'' ''lights'' (Num 0)),
          (1500, SceneStep ''kitchen'' ''security'' (Str ''armed'')),
          (2000, SceneDone ''goodnight'' pick)]"
  by (simp add: executeScene_def js_get_def loadScenes_def Let_def)

lemma goodnight_fields:
  "devices (app_of (executeScene pick ''goodnight'' a)) = devices a"
  "synthesis (app_of (executeScene pick ''goodnight'' a)) = synthesis a"
  "voiceResponseEnabled (app_of (executeScene pick ''goodnight'' a)) = voiceResponseEnabled a"
  "storage (app_of (executeScene pick ''goodnight'' a)) = Some (devices a)"
  unfolding executeScene_goodnight
  by (simp_all add: returns_def saveDeviceStates_def speak_def addToDebugPanel_def)

lemma goodnight_steps:
  assumes "map_of (devices b) ''living-room'' \<noteq> None"
    and "map_of (devices b) ''bedroom'' \<noteq> None"
    and "map_of (devices b) ''kitchen'' \<noteq> None"
  shows "get_device (devices
           (fire (SceneStep ''kitchen'' ''security'' (Str ''armed''))
             (fire (SceneStep ''kitchen'' ''lights'' (Num 0))
               (fire (SceneStep ''bedroom'' ''lights'' (Num 0))
                 (fire (SceneStep ''living-room'' ''lights'' (Num 0)) b))))) r d
         = (if r = ''kitchen'' \<and> d = ''security'' then Some (Str ''armed'')
            else if r \<in> {''living-room'', ''bedroom'', ''kitchen''} \<and> d = ''lights'' then Some (Num 0)
            else get_device (devices b) r d)"
proof -
  let ?b1 = "fire (SceneStep ''living-room'' ''lights'' (Num 0)) b"
  let ?b2 = "fire (SceneStep ''bedroom'' ''lights'' (Num 0)) ?b1"
  let ?b3 = "fire (SceneStep ''kitchen'' ''lights'' (Num 0)) ?b2"
  have p1: "map_of (devices ?b1) ''bedroom'' \<noteq> None" "map_of (devices ?b1) ''kitchen'' \<noteq> None"
    using assms(2,3) by (simp_all add: fire_SceneStep(2) [OF assms(1)] del: fire.simps)
  have p2: "map_of (devices ?b2) ''kitchen'' \<noteq> None"
    using p1(2) by (simp add: fire_SceneStep(2) [OF p1(1)] del: fire.simps)
  have p3: "map_of (devices ?b3) ''kitchen'' \<noteq> None"
    using p2 by (simp add: fire_SceneStep(2) [OF p2] del: fire.simps)
  show ?thesis
    unfolding fire_SceneStep(1) [OF p3] fire_SceneStep(1) [OF p2] fire_SceneStep(1) [OF p1(1)]
      fire_SceneStep(1) [OF assms(1)]
    by auto
qed

text \<open>
  C8 (as amended). The goodnight scene registers its four steps in declared order with
  the delays 0, 500, 1000 and 1500 ms (500 ms times the step index) and the final
  confirmation with the delay 2000 ms. With no other timeout pending and the three rooms
  in the store, after 2000 ms the lights of the living room, the bedroom and the kitchen
  are 0 and the kitchen security is armed; the final confirmation is spoken then, and not
  before, when speech synthesis is available and voice responses are enabled, and it is
  not emitted at all otherwise.
\<close>

theorem goodnight_scene:
  "timeouts (executeScene pick ''goodnight'' a)
     = [(0, SceneStep ''living-room'' ''lights'' (Num 0)),
        (500, SceneStep ''bedroom'' ''lights'' (Num 0)),
        (1000, SceneStep ''kitchen'' ''lights'' (Num 0)),
        (1500, SceneStep ''kitchen'' ''security'' (Str ''armed'')),
        (2000, SceneDone ''goodnight'' pick)]
   \<and> (queue w = [] \<and> map_of (devices (app_state w)) ''living-room'' \<noteq> None
        \<and> map_of (devices (app_state w)) ''bedroom'' \<noteq> None
        \<and> map_of (devices (app_state w)) ''kitchen'' \<noteq> None \<longrightarrow>
        get_device (devices (app_state (advance 2000
            (call (\<lambda>now. executeScene pick ''goodnight'') w)))) ''living-room'' ''lights''
          = Some (Num 0)
        \<and> get_device (devices (app_state (advance 2000
            (call (\<lambda>now. executeScene pick ''goodnight'') w)))) ''bedroom'' ''lights''
          = Some (Num 0)
        \<and> get_device (devices (app_state (advance 2000
            (call (\<lambda>now. executeScene pick ''goodnight'') w)))) ''kitchen'' ''lights''
          = Some (Num 0)
        \<and> get_device (devices (app_state (advance 2000
            (call (\<lambda>now. executeScene pick ''goodnight'') w)))) ''kitchen'' ''security''
          = Some (Str ''armed'')
        \<and> trace (app_state (advance 2000 (call (\<lambda>now. executeScene pick ''goodnight'') w)))
          = trace (app_of (executeScene pick ''goodnight'' (app_state w)))
            @ (if synthesis (app_state w) \<and> voiceResponseEnabled (app_state w)
               then [Spoken (getRandomResponse ''success'' pick ''goodnight mode activated.'')]
               else []))
   \<and> (queue w = [] \<and> ms < 2000 \<longrightarrow>
        trace (app_state (advance ms (call (\<lambda>now. executeScene pick ''goodnight'') w)))
          = trace (app_of (executeScene pick ''goodnight'' (app_state w))))"
proof -
  let ?out = "executeScene pick ''goodnight'' (app_state w)"
  let ?w1 = "call (\<lambda>now. executeScene pick ''goodnight'') w"
  let ?s1 = "SceneStep ''living-room'' ''lights'' (Num 0)"
  let ?s2 = "SceneStep ''bedroom'' ''lights'' (Num 0)"
  let ?s3 = "SceneStep ''kitchen'' ''lights'' (Num 0)"
  let ?s4 = "SceneStep ''kitchen'' ''security'' (Str ''armed'')"
  let ?s5 = "SceneDone ''goodnight'' pick"
  have ts: "\<And>x. timeouts (executeScene pick ''goodnight'' x)
     = [(0, ?s1), (500, ?s2), (1000, ?s3), (1500, ?s4), (2000, ?s5)]"
    by (simp add: executeScene_goodnight returns_def)
  have w1: "queue w = [] \<Longrightarrow>
      ?w1 = w\<lparr>app_state := app_of ?out,
              queue := [(clock w, ?s1), (clock w + 500, ?s2), (clock w + 1000, ?s3),
                        (clock w + 1500, ?s4), (clock w + 2000, ?s5)]\<rparr>"
    by (simp add: call_def Let_def schedule_def ts timeout_delay_small)
  have adv: "queue w = [] \<Longrightarrow>
      app_state (advance 2000 ?w1)
        = fire ?s5 (fire ?s4 (fire ?s3 (fire ?s2 (fire ?s1 (app_of ?out)))))"
    by (simp add: w1 advance_def Let_def del: fire.simps)
  have final: "queue w = [] \<and> map_of (devices (app_state w)) ''living-room'' \<noteq> None
        \<and> map_of (devices (app_state w)) ''bedroom'' \<noteq> None
        \<and> map_of (devices (app_state w)) ''kitchen'' \<noteq> None \<Longrightarrow>
        get_device (devices (app_state (advance 2000 ?w1))) ''living-room'' ''lights'' = Some (Num 0)
        \<and> get_device (devices (app_state (advance 2000 ?w1))) ''bedroom'' ''lights'' = Some (Num 0)
        \<and> get_device (devices (app_state (advance 2000 ?w1))) ''kitchen'' ''lights'' = Some (Num 0)
        \<and> get_device (devices (app_state (advance 2000 ?w1))) ''kitchen'' ''security''
            = Some (Str ''armed'')
        \<and> trace (app_state (advance 2000 ?w1))
            = trace (app_of ?out)
              @ (if synthesis (app_state w) \<and> voiceResponseEnabled (app_state w)
                 then [Spoken (getRandomResponse ''success'' pick ''goodnight mode activated.'')]
                 else [])"
  proof -
    assume h: "queue w = [] \<and> map_of (devices (app_state w)) ''living-room'' \<noteq> None
        \<and> map_of (devices (app_state w)) ''bedroom'' \<noteq> None
        \<and> map_of (devices (app_state w)) ''kitchen'' \<noteq> None"
    let ?b = "app_of ?out"
    let ?b4 = "fire ?s4 (fire ?s3 (fire ?s2 (fire ?s1 ?b)))"
    have pres: "map_of (devices ?b) ''living-room'' \<noteq> None" "map_of (devices ?b) ''bedroom'' \<noteq> None"
      "map_of (devices ?b) ''kitchen'' \<noteq> None"
      using h by (simp_all add: goodnight_fields)
    note steps = goodnight_steps [OF pres]
    have nonempty: "getRandomResponse ''success'' pick ''goodnight mode activated.'' \<noteq> []"
      by (simp add: getRandomResponse_def responseVariations_def Let_def)
    have flags: "trace ?b4 = trace ?b" "synthesis ?b4 = synthesis (app_state w)"
      "voiceResponseEnabled ?b4 = voiceResponseEnabled (app_state w)"
      by (simp_all only: fire_SceneStep_fields goodnight_fields)
    have last: "devices (fire ?s5 ?b4) = devices ?b4"
      "trace (fire ?s5 ?b4)
         = trace ?b @ (if synthesis (app_state w) \<and> voiceResponseEnabled (app_state w)
                       then [Spoken (getRandomResponse ''success'' pick ''goodnight mode activated.'')]
                       else [])"
      using nonempty flags by (simp_all add: speak_def del: fire.simps(2))
    from h have q: "queue w = []" by simp
    show ?thesis
      unfolding adv [OF q] last steps by simp
  qed
  have before: "queue w = [] \<and> ms < 2000 \<Longrightarrow>
        trace (app_state (advance ms ?w1)) = trace (app_of ?out)"
  proof -
    assume h: "queue w = [] \<and> ms < 2000"
    let ?due = "sort_key fst (filter (\<lambda>(d, task). d \<le> clock w + ms)
                  [(clock w, ?s1), (clock w + 500, ?s2), (clock w + 1000, ?s3),
                   (clock w + 1500, ?s4), (clock w + 2000, ?s5)])"
    have steps_only: "\<forall>(d, t) \<in> set ?due. \<exists>room device v. t = SceneStep room device v"
      using h by auto
    have "app_state (advance ms ?w1) = foldl (\<lambda>a (d, task). fire task a) (app_of ?out) ?due"
      using h by (simp add: w1 advance_def Let_def del: fire.simps)
    then show ?thesis using scene_steps_keep_trace [OF steps_only] by simp
  qed
  from ts [of a] final before show ?thesis by blast
qed

theorem goodnight_scene_witness:
  "queue (boot (init_app None True False)) = []
   \<and> map_of (devices (app_state (boot (init_app None True False)))) ''living-room'' \<noteq> None
   \<and> map_of (devices (app_state (boot (init_app None True False)))) ''bedroom'' \<noteq> None
   \<and> map_of (devices (app_state (boot (init_app None True False)))) ''kitchen'' \<noteq> None
   \<and> (499 :: nat) < 2000
   \<and> get_device (devices (app_state (advance 2000
         (call (\<lambda>now. executeScene 2 ''goodnight'') (boot (init_app None True False))))))
         ''kitchen'' ''security'' = Some (Str ''armed'')
   \<and> get_device (devices (app_state (advance 2000
         (call (\<lambda>now. executeScene 2 ''goodnight'') (boot (init_app None True False))))))
         ''bedroom'' ''lights'' = Some (Num 0)
   \<and> trace (app_state (advance 499
         (call (\<lambda>now. executeScene 2 ''goodnight'') (boot (init_app None True False)))))
       = trace (app_of (executeScene 2 ''goodnight'' (app_state (boot (init_app None True False)))))"
proof -
  let ?w = "boot (init_app None True False)"
  have h: "queue ?w = []
     \<and> map_of (devices (app_state ?w)) ''living-room'' \<noteq> None
     \<and> map_of (devices (app_state ?w)) ''bedroom'' \<noteq> None
     \<and> map_of (devices (app_state ?w)) ''kitchen'' \<noteq> None"
    by (simp add: boot_def init_app_def loadDeviceStates_def defaultStates_def)
  have m: "(499 :: nat) < 2000" by simp
  from goodnight_scene [of 2 "init_app None True False" ?w 499] h m
  show ?thesis by blast
qed

text \<open>
  With voice responses disabled the scene runs and the store ends as described, but no
  final confirmation is emitted: the trace ends with the snapshot saved when the scene
  was started.
\<close>

theorem goodnight_scene_counterexample:
  "get_device (devices (app_state
      (run [Utter ''disable voice'' 1 0 0, Utter ''goodnight'' 1 0 0, Advance 2000]
           (boot (init_app None True False))))) ''kitchen'' ''security'' = Some (Str ''armed'')
   \<and> trace (app_state
        (run [Utter ''disable voice'' 1 0 0, Utter ''goodnight'' 1 0 0, Advance 2000]
             (boot (init_app None True False))))
       = [Debug ([CHR 0x22] @ ''disable voice'' @ [CHR 0x22]) Normal,
          Debug ''Voice responses disabled'' Success,
          Debug ([CHR 0x22] @ ''goodnight'' @ [CHR 0x22]) Normal,
          Debug ''Executing goodnight scene...'' Success,
          Saved defaultStates]"
  by code_simp

section \<open>Persistence\<close>

text \<open>
  The callback of a device command and the callback of a timer save the snapshot after
  they have changed the store (\<open>fire_DeviceTask\<close>, \<open>fire_TimerFire\<close>). A scene step does
  not save, and \<open>executeScene\<close> saves once, when the scene is started, before any of its
  steps has run.
\<close>

lemma executeScene_saves_before_steps:
  assumes "map_of loadScenes sceneName = Some scenes"
  shows "storage (app_of (executeScene pick sceneName a)) = Some (devices a)"
  using assms
  by (simp add: executeScene_def js_get_own Let_def returns_def saveDeviceStates_def speak_def
        addToDebugPanel_def)

lemma scene_step_does_not_save:
  "storage (fire (SceneStep room device v) b) = storage b"
  "trace (fire (SceneStep room device v) b) = trace b"
  by (simp_all split: option.splits)

text \<open>
  C3. Every mutation of the store is to be followed by saving the full snapshot. After
  the goodnight scene has run from the default states, the kitchen security is armed in
  the store while the saved snapshot is still the default one, in which it is disarmed.
\<close>

theorem scene_snapshot_stale:
  "get_device (devices (app_state
      (run [Utter ''goodnight'' 1 0 0, Advance 2000] (boot (init_app None True False)))))
     ''kitchen'' ''security'' = Some (Str ''armed'')
   \<and> storage (app_state
        (run [Utter ''goodnight'' 1 0 0, Advance 2000] (boot (init_app None True False))))
       = Some defaultStates
   \<and> get_device defaultStates ''kitchen'' ''security'' = Some (Str ''disarmed'')"
  by code_simp

end
